theory Spec2Isabelle
  imports Main "HOL-Library.Monad_Syntax" "HOL-Library.Word"
begin

section \<open>Data model of mutex.c\<close>

text \<open>
  A thread identity (\<^verbatim>\<open>pthread_t\<close>, the value of \<^verbatim>\<open>pthread_self()\<close>) is a token that is
  never \<^verbatim>\<open>NULL\<close>; the fields of a mutex that hold a thread or \<^verbatim>\<open>NULL\<close> are options.
  Addresses of heap cells are natural numbers.
\<close>

type_synonym pthread_t = nat
type_synonym addr = nat

text \<open>The values of \<^verbatim>\<open>result\<close>: \<open>OK\<close> is the return value 0.\<close>

datatype errno = OK | EINVAL | ENOMEM | ENOSYS | EBUSY | EDEADLK | EPERM

text \<open>
  The field \<^verbatim>\<open>type\<close> is a C \<^verbatim>\<open>int\<close>. The four named constants are the cases the source
  switches on; \<open>PTHREAD_MUTEX_OTHER\<close> stands for every other value, which reaches the
  \<^verbatim>\<open>default:\<close> branch of a switch.
\<close>

datatype mutex_type =
    PTHREAD_MUTEX_DEFAULT
  | PTHREAD_MUTEX_NORMAL
  | PTHREAD_MUTEX_ERRORCHECK
  | PTHREAD_MUTEX_RECURSIVE
  | PTHREAD_MUTEX_OTHER

datatype process_shared = PTHREAD_PROCESS_PRIVATE | PTHREAD_PROCESS_SHARED

text \<open>
  Modelled from the spec: the declaration of the mutex structure (implement.h) is not
  part of the sources. The spec gives the fields: the lock counter is a signed integer
  (-1 when nobody holds the mutex), the waiter count an integer, and owner, last owner and
  last waiter are thread identities or empty. The field names are those mutex.c uses.

  \<^verbatim>\<open>pthread_mutex_trylock\<close> passes the address of \<^verbatim>\<open>lock_idx\<close> to \<^verbatim>\<open>InterlockedIncrement\<close>, so
  the lock counter is a 32-bit \<^verbatim>\<open>LONG\<close>: a 32-bit word, whose signed value is \<open>sint\<close> of
  it. Incrementing 2147483647 gives -2147483648, and decrementing goes the other way. The
  source only ever compares the counter with 0 (after adding 1, in two places). mutex.c
  does not fix the types of the two other counters, which the model takes as integers.
\<close>

record mutex_rec =
  lock_idx :: "32 word"
  try_lock :: int
  owner :: "pthread_t option"
  waiters :: int
  lastOwner :: "pthread_t option"
  lastWaiter :: "pthread_t option"
  mtype :: mutex_type
  pshared :: process_shared

text \<open>
  The attribute structure has the two fields mutex.c reads and writes. A
  \<^verbatim>\<open>pthread_mutexattr_t\<close> is a pointer to one: \<open>None\<close> is \<^verbatim>\<open>NULL\<close>.
\<close>

record mutexattr =
  attr_pshared :: process_shared
  attr_type :: mutex_type

type_synonym pthread_mutexattr_t = "mutexattr option"

text \<open>
  A \<^verbatim>\<open>pthread_mutex_t\<close> is a pointer: \<^verbatim>\<open>NULL\<close>, the reserved value
  \<^verbatim>\<open>PTW32_OBJECT_AUTO_INIT\<close> of a statically declared mutex, or the address of a record
  obtained from \<^verbatim>\<open>calloc\<close>.
\<close>

datatype pthread_mutex_t = NULL | PTW32_OBJECT_AUTO_INIT | Rec addr

text \<open>
  The heap of mutex records: cell \<open>a\<close> is \<open>Some r\<close> while the record at address \<open>a\<close> is
  allocated, \<open>None\<close> after \<^verbatim>\<open>free\<close>. Reading through an address that is not allocated
  is a fault.
\<close>

type_synonym heap = "mutex_rec option list"

definition heap_at :: "heap \<Rightarrow> addr \<Rightarrow> mutex_rec option" where
  "heap_at h a = (if a < length h then h ! a else None)"

text \<open>
  \<^verbatim>\<open>calloc\<close> either fails (\<open>mem_ok = False\<close>, the result is \<^verbatim>\<open>NULL\<close>) or returns a fresh
  address. Every field of a new record is assigned before the record is published, so the
  model stores the record whole at the new address.
\<close>

definition calloc :: "bool \<Rightarrow> heap \<Rightarrow> addr option" where
  "calloc mem_ok h = (if mem_ok then Some (length h) else None)"

definition heap_new :: "heap \<Rightarrow> mutex_rec \<Rightarrow> heap" where
  "heap_new h r = h @ [Some r]"

definition heap_set :: "heap \<Rightarrow> addr \<Rightarrow> mutex_rec \<Rightarrow> heap" where
  "heap_set h a r = h[a := Some r]"

definition free :: "heap \<Rightarrow> addr \<Rightarrow> heap" where
  "free h a = h[a := None]"

text \<open>
  Dereferencing a \<^verbatim>\<open>pthread_mutex_t\<close>: \<open>None\<close> when the pointer is \<^verbatim>\<open>NULL\<close>, the reserved
  value, or the address of no allocated record.
\<close>

definition deref :: "heap \<Rightarrow> pthread_mutex_t \<Rightarrow> (addr \<times> mutex_rec) option" where
  "deref h mx = (case mx of
      Rec a \<Rightarrow> (case heap_at h a of None \<Rightarrow> None | Some r \<Rightarrow> Some (a, r))
    | _ \<Rightarrow> None)"

text \<open>
  What a call does: it returns a result code together with the new contents of what it
  was given a pointer to, or it faults (a read or write through an invalid pointer). A call
  that never returns has no outcome: the functions below return \<open>outcome option\<close>, and
  \<open>None\<close> is not returning.
\<close>

datatype 'a outcome = Returns errno 'a | Fault

section \<open>The handle slot\<close>

text \<open>
  Modelled from the spec: the macros \<^verbatim>\<open>PTW32_OBJECT_GET\<close>, \<^verbatim>\<open>PTW32_OBJECT_SET\<close> and
  \<^verbatim>\<open>PTW32_OBJECT_TRYGET\<close> (implement.h) are not part of the sources. The spec describes
  them as the handle slot: Acquire blocks until no other caller holds exclusive access, then
  returns the stored value and retains ownership; Release stores the new value and
  relinquishes ownership; TryAcquire returns not-ok immediately under contention.

  The location a \<^verbatim>\<open>pthread_mutex_t *\<close> points to is therefore either held for exclusive
  access or stores a value. A caller that finds the slot held waits for another thread to
  release it; run on its own it never returns.
\<close>

datatype handle_slot = Held | Stored pthread_mutex_t

partial_function (option) PTW32_OBJECT_GET :: "handle_slot \<Rightarrow> pthread_mutex_t option" where
  "PTW32_OBJECT_GET s = (case s of Held \<Rightarrow> PTW32_OBJECT_GET s | Stored v \<Rightarrow> Some v)"

declare PTW32_OBJECT_GET.simps [code]

definition PTW32_OBJECT_TRYGET :: "handle_slot \<Rightarrow> pthread_mutex_t option" where
  "PTW32_OBJECT_TRYGET s = (case s of Held \<Rightarrow> None | Stored v \<Rightarrow> Some v)"

definition PTW32_OBJECT_SET :: "pthread_mutex_t \<Rightarrow> handle_slot" where
  "PTW32_OBJECT_SET v = Stored v"

text \<open>
  Modelled from the spec: the variable \<^verbatim>\<open>ptw32_mutex_mapped_default\<close> is defined outside
  mutex.c. The spec maps the default type to the recursive one.
\<close>

definition ptw32_mutex_mapped_default :: mutex_type where
  "ptw32_mutex_mapped_default = PTHREAD_MUTEX_RECURSIVE"

section \<open>Attribute objects\<close>

text \<open>
  \<^verbatim>\<open>pthread_mutexattr_init\<close>. The argument \<open>attr\<close> is the pointer to the caller's
  \<^verbatim>\<open>pthread_mutexattr_t\<close> variable: \<open>None\<close> is a null pointer, \<open>Some v\<close> a variable holding
  \<open>v\<close>; the outcome carries the variable's new contents. The two field writes go through
  \<^verbatim>\<open>ma\<close> whatever \<^verbatim>\<open>calloc\<close> returned, and the store goes through \<^verbatim>\<open>attr\<close> unchecked.
  \<open>attr_calloc\<close> is the \<^verbatim>\<open>calloc\<close> of the attribute record: \<^verbatim>\<open>NULL\<close> when it fails,
  otherwise a new record, whose two fields are both assigned before it is used (what the
  zero bytes stand for in the two fields does not matter).
\<close>

definition attr_calloc :: "bool \<Rightarrow> pthread_mutexattr_t" where
  "attr_calloc mem_ok =
     (if mem_ok
      then Some \<lparr>attr_pshared = PTHREAD_PROCESS_PRIVATE, attr_type = PTHREAD_MUTEX_DEFAULT\<rparr>
      else None)"

definition pthread_mutexattr_init ::
  "pthread_mutexattr_t option \<Rightarrow> bool \<Rightarrow> pthread_mutexattr_t outcome" where
  "pthread_mutexattr_init attr mem_ok =
     (let ma = attr_calloc mem_ok;
          result = (if ma = None then ENOMEM else OK)
      in case ma of
           None \<Rightarrow> Fault
         | Some m \<Rightarrow>
             (let m1 = m\<lparr>attr_pshared := PTHREAD_PROCESS_PRIVATE\<rparr>;
                  m2 = m1\<lparr>attr_type := PTHREAD_MUTEX_DEFAULT\<rparr>
              in case attr of
                   None \<Rightarrow> Fault
                 | Some old \<Rightarrow> Returns result (Some m2)))"

section \<open>Lifecycle operations\<close>

text \<open>
  In every mutex operation the argument \<open>mutex\<close> is the pointer to the caller's
  \<^verbatim>\<open>pthread_mutex_t\<close> location: \<open>None\<close> is a null pointer, \<open>Some s\<close> a location whose slot
  is \<open>s\<close>. An outcome carries the location's new slot and the new heap. \<open>attr\<close> is a
  pointer to a \<^verbatim>\<open>pthread_mutexattr_t\<close>: \<open>None\<close> is null, \<open>Some None\<close> points to a null
  attribute object. \<open>mem_ok\<close> says whether the \<^verbatim>\<open>calloc\<close> of the call succeeds.

  Every operation switches the caller to deferred cancellation on entry and tests for
  cancellation before it returns; neither touches the mutex, and neither is modelled. The
  one cancellation point inside an operation, in the waiting path of
  \<^verbatim>\<open>pthread_mutex_lock\<close>, is a step of the interleaving model below.
\<close>

type_synonym mutex_outcome = "(handle_slot option \<times> heap) outcome"

definition pthread_mutex_init ::
  "handle_slot option \<Rightarrow> pthread_mutexattr_t option \<Rightarrow> bool \<Rightarrow> heap \<Rightarrow> mutex_outcome option" where
  "pthread_mutex_init mutex attr mem_ok h =
     (case mutex of
        None \<Rightarrow> Some (Returns EINVAL (None, h))
      | Some s \<Rightarrow>
          if (case attr of Some (Some at) \<Rightarrow> attr_pshared at = PTHREAD_PROCESS_SHARED | _ \<Rightarrow> False)
          then Some (Returns ENOSYS (Some s, h))
          else do {
            old \<leftarrow> PTW32_OBJECT_GET s;
            (case calloc mem_ok h of
               None \<Rightarrow> Some (Returns ENOMEM (Some (PTW32_OBJECT_SET NULL), h))
             | Some a \<Rightarrow>
                 (let t = (case attr of
                             Some (Some at) \<Rightarrow>
                               (if attr_type at = PTHREAD_MUTEX_DEFAULT
                                then ptw32_mutex_mapped_default else attr_type at)
                           | _ \<Rightarrow> ptw32_mutex_mapped_default);
                      p = (case attr of
                             Some (Some at) \<Rightarrow> attr_pshared at
                           | _ \<Rightarrow> PTHREAD_PROCESS_PRIVATE);
                      r = \<lparr>lock_idx = - 1, try_lock = 0, owner = None, waiters = 0,
                           lastOwner = None, lastWaiter = None, mtype = t, pshared = p\<rparr>
                  in Some (Returns OK (Some (PTW32_OBJECT_SET (Rec a)), heap_new h r))))
          })"

definition pthread_mutex_destroy :: "handle_slot option \<Rightarrow> heap \<Rightarrow> mutex_outcome option" where
  "pthread_mutex_destroy mutex h =
     (case mutex of
        None \<Rightarrow> Some (Returns EINVAL (None, h))
      | Some s \<Rightarrow> do {
          mx \<leftarrow> PTW32_OBJECT_GET s;
          (case mx of
             NULL \<Rightarrow> Some (Returns EINVAL (Some (PTW32_OBJECT_SET mx), h))
           | PTW32_OBJECT_AUTO_INIT \<Rightarrow> Some (Returns OK (Some (PTW32_OBJECT_SET NULL), h))
           | Rec a \<Rightarrow>
               (case heap_at h a of
                  None \<Rightarrow> Some Fault
                | Some r \<Rightarrow>
                    if owner r \<noteq> None
                    then Some (Returns EBUSY (Some (PTW32_OBJECT_SET mx), h))
                    else Some (Returns OK (Some (PTW32_OBJECT_SET NULL), free h a))))
        })"

section \<open>The lock engine\<close>

text \<open>
  \<^verbatim>\<open>pthread_mutex_unlock\<close>. \<open>self\<close> is the value of \<^verbatim>\<open>pthread_self()\<close>.
\<close>

definition pthread_mutex_unlock ::
  "handle_slot option \<Rightarrow> pthread_t \<Rightarrow> heap \<Rightarrow> mutex_outcome option" where
  "pthread_mutex_unlock mutex self h =
     (case mutex of
        None \<Rightarrow> Some (Returns EINVAL (None, h))
      | Some s \<Rightarrow> do {
          mx \<leftarrow> PTW32_OBJECT_GET s;
          (case mx of
             NULL \<Rightarrow> Some (Returns EINVAL (Some (PTW32_OBJECT_SET mx), h))
           | PTW32_OBJECT_AUTO_INIT \<Rightarrow> Some (Returns EPERM (Some (PTW32_OBJECT_SET mx), h))
           | Rec a \<Rightarrow>
               (case heap_at h a of
                  None \<Rightarrow> Some Fault
                | Some r \<Rightarrow>
                    if owner r = Some self
                    then
                      (let r1 = (case mtype r of
                                   PTHREAD_MUTEX_NORMAL \<Rightarrow> r\<lparr>owner := None\<rparr>
                                 | PTHREAD_MUTEX_ERRORCHECK \<Rightarrow> r\<lparr>owner := None\<rparr>
                                 | _ \<Rightarrow> (if lock_idx r = 0 then r\<lparr>owner := None\<rparr> else r));
                           r2 = r1\<lparr>lock_idx := lock_idx r1 - 1\<rparr>
                       in Some (Returns OK (Some (PTW32_OBJECT_SET mx), heap_set h a r2)))
                    else Some (Returns EPERM (Some (PTW32_OBJECT_SET mx), h))))
        })"

text \<open>
  \<^verbatim>\<open>pthread_mutex_trylock\<close>. When the slot is not acquired the call leaves by
  \<^verbatim>\<open>FAIL0\<close>, which lies after the \<^verbatim>\<open>PTW32_OBJECT_SET\<close>; so does the \<^verbatim>\<open>NULL\<close> case, which has
  acquired the slot and leaves it held. The automatic initialisation calls
  \<^verbatim>\<open>pthread_mutex_init\<close> on the local variable \<^verbatim>\<open>mx\<close>.
\<close>

definition pthread_mutex_trylock ::
  "handle_slot option \<Rightarrow> pthread_t \<Rightarrow> bool \<Rightarrow> heap \<Rightarrow> mutex_outcome option" where
  "pthread_mutex_trylock mutex self mem_ok h =
     (case mutex of
        None \<Rightarrow> Some (Returns EINVAL (None, h))
      | Some s \<Rightarrow>
          (case PTW32_OBJECT_TRYGET s of
             None \<Rightarrow> Some (Returns EBUSY (Some s, h))
           | Some mx \<Rightarrow>
               if mx = NULL then Some (Returns EINVAL (Some Held, h))
               else
                 (case (if mx = PTW32_OBJECT_AUTO_INIT
                        then pthread_mutex_init (Some (Stored mx)) None mem_ok h
                        else Some (Returns OK (Some (Stored mx), h))) of
                    None \<Rightarrow> None
                  | Some (Returns result (Some (Stored mx1), h1)) \<Rightarrow>
                      if result = OK
                      then
                        (case deref h1 mx1 of
                           None \<Rightarrow> Some Fault
                         | Some (a, r) \<Rightarrow>
                             if lock_idx r + 1 = 0
                             then
                               (let r1 = r\<lparr>try_lock := try_lock r + 1\<rparr>;
                                    r2 = r1\<lparr>lock_idx := lock_idx r1 + 1\<rparr>;
                                    r3 = (if lock_idx r2 = 0
                                          then r2\<lparr>owner := Some self, lastOwner := Some self,
                                                  lastWaiter := None\<rparr>
                                          else r2\<lparr>lock_idx := lock_idx r2 - 1\<rparr>);
                                    result1 = (if lock_idx r2 = 0 then OK else EBUSY);
                                    r4 = r3\<lparr>try_lock := try_lock r3 - 1\<rparr>
                                in Some (Returns result1
                                     (Some (PTW32_OBJECT_SET mx1), heap_set h1 a r4)))
                             else Some (Returns EBUSY (Some (PTW32_OBJECT_SET mx1), h1)))
                      else Some (Returns result (Some (PTW32_OBJECT_SET mx1), h1))
                  | Some _ \<Rightarrow> Some Fault)))"

text \<open>
  \<^verbatim>\<open>pthread_mutex_lock\<close>. The switch on \<^verbatim>\<open>mx->type\<close> selects one of three loops, which
  differ only in what they do when the counter was already claimed and the owner is the
  caller: the recursive loop takes the lock, the error-checking loop breaks with
  \<^verbatim>\<open>EDEADLK\<close>, the normal loop does not look at the owner.
\<close>

datatype lock_loop = LOOP_RECURSIVE | LOOP_NORMAL | LOOP_ERRORCHECK

text \<open>The inner \<^verbatim>\<open>while (mx->try_lock) Sleep(0);\<close>, run while the caller holds the slot.\<close>

partial_function (option) spin_try_lock :: "mutex_rec \<Rightarrow> unit option" where
  "spin_try_lock r = (if try_lock r \<noteq> 0 then spin_try_lock r else Some ())"

declare spin_try_lock.simps [code]

text \<open>
  One pass through the body of \<^verbatim>\<open>while (TRUE)\<close>, from the increment to the \<^verbatim>\<open>break\<close>
  (lock taken, or \<^verbatim>\<open>EDEADLK\<close>) or to the point where the waiting path releases the slot.
\<close>

datatype attempt = Locked mutex_rec | Deadlk mutex_rec | MustWait mutex_rec

definition take_lock :: "pthread_t \<Rightarrow> mutex_rec \<Rightarrow> mutex_rec" where
  "take_lock self r = r\<lparr>owner := Some self, lastOwner := Some self, lastWaiter := None\<rparr>"

definition enter_wait :: "pthread_t \<Rightarrow> mutex_rec \<Rightarrow> mutex_rec" where
  "enter_wait self r =
     r\<lparr>waiters := waiters r + 1, lastWaiter := Some self, lock_idx := lock_idx r - 1\<rparr>"

definition lock_attempt :: "lock_loop \<Rightarrow> pthread_t \<Rightarrow> mutex_rec \<Rightarrow> attempt option" where
  "lock_attempt loop self r0 =
     (let r = r0\<lparr>lock_idx := lock_idx r0 + 1\<rparr> in
      if lock_idx r = 0
      then
        (if waiters r > 0 \<and> lastOwner r = Some self
         then
           (if lastWaiter r = Some self
            then Some (Locked (take_lock self (r\<lparr>waiters := 0\<rparr>)))
            else Some (MustWait (enter_wait self r)))
         else Some (Locked (take_lock self r)))
      else do {
        _ \<leftarrow> spin_try_lock r;
        (if loop = LOOP_RECURSIVE \<and> owner r = Some self
         then Some (Locked (take_lock self r))
         else if loop = LOOP_ERRORCHECK \<and> owner r = Some self
         then Some (Deadlk r)
         else Some (MustWait (enter_wait self r)))
      })"

text \<open>
  The call is cut at its suspension point. A segment runs from an acquisition of the slot
  to the return of the call or to the \<^verbatim>\<open>Sleep(0)\<close> of the waiting path, where the slot has
  been released and other threads run.
\<close>

datatype segment = Done mutex_outcome | Asleep lock_loop handle_slot heap

definition lock_iterate ::
  "lock_loop \<Rightarrow> pthread_t \<Rightarrow> pthread_mutex_t \<Rightarrow> heap \<Rightarrow> segment option" where
  "lock_iterate loop self mx h =
     (case deref h mx of
        None \<Rightarrow> Some (Done Fault)
      | Some (a, r) \<Rightarrow> do {
          att \<leftarrow> lock_attempt loop self r;
          (case att of
             Locked r1 \<Rightarrow>
               Some (Done (Returns OK (Some (PTW32_OBJECT_SET mx), heap_set h a r1)))
           | Deadlk r1 \<Rightarrow>
               Some (Done (Returns EDEADLK (Some (PTW32_OBJECT_SET mx), heap_set h a r1)))
           | MustWait r1 \<Rightarrow>
               Some (Asleep loop (PTW32_OBJECT_SET mx) (heap_set h a r1)))
        })"

text \<open>The first segment: from the call to the first suspension or to the return.\<close>

definition lock_begin ::
  "handle_slot option \<Rightarrow> pthread_t \<Rightarrow> bool \<Rightarrow> heap \<Rightarrow> segment option" where
  "lock_begin mutex self mem_ok h =
     (case mutex of
        None \<Rightarrow> Some (Done (Returns EINVAL (None, h)))
      | Some s \<Rightarrow> do {
          mx \<leftarrow> PTW32_OBJECT_GET s;
          (if mx = NULL then Some (Done (Returns EINVAL (Some (PTW32_OBJECT_SET mx), h)))
           else
             (case (if mx = PTW32_OBJECT_AUTO_INIT
                    then pthread_mutex_init (Some (Stored mx)) None mem_ok h
                    else Some (Returns OK (Some (Stored mx), h))) of
                None \<Rightarrow> None
              | Some (Returns result (Some (Stored mx1), h1)) \<Rightarrow>
                  if result = OK
                  then
                    (case deref h1 mx1 of
                       None \<Rightarrow> Some (Done Fault)
                     | Some (a, r) \<Rightarrow>
                         (case mtype r of
                            PTHREAD_MUTEX_DEFAULT \<Rightarrow> lock_iterate LOOP_RECURSIVE self mx1 h1
                          | PTHREAD_MUTEX_RECURSIVE \<Rightarrow> lock_iterate LOOP_RECURSIVE self mx1 h1
                          | PTHREAD_MUTEX_NORMAL \<Rightarrow> lock_iterate LOOP_NORMAL self mx1 h1
                          | PTHREAD_MUTEX_ERRORCHECK \<Rightarrow> lock_iterate LOOP_ERRORCHECK self mx1 h1
                          | PTHREAD_MUTEX_OTHER \<Rightarrow>
                              Some (Done (Returns EINVAL (Some (PTW32_OBJECT_SET mx1), h1)))))
                  else Some (Done (Returns result (Some (PTW32_OBJECT_SET mx1), h1)))
              | Some _ \<Rightarrow> Some (Done Fault)))
        })"

text \<open>
  A later segment: the thread wakes, acquires the slot again, reads the handle anew,
  decrements \<^verbatim>\<open>waiters\<close> unless it is already 0, and goes round the loop it was in.
\<close>

definition lock_wake ::
  "lock_loop \<Rightarrow> pthread_t \<Rightarrow> handle_slot \<Rightarrow> heap \<Rightarrow> segment option" where
  "lock_wake loop self s h = do {
     mx \<leftarrow> PTW32_OBJECT_GET s;
     (case deref h mx of
        None \<Rightarrow> Some (Done Fault)
      | Some (a, r) \<Rightarrow>
          lock_iterate loop self mx
            (if waiters r > 0 then heap_set h a (r\<lparr>waiters := waiters r - 1\<rparr>) else h))
   }"

text \<open>
  The whole call when no other thread runs while the caller sleeps and no cancellation
  is pending: the segments follow each other on the state the previous one left. The
  loop has no bound; a call that waits for ever has no outcome.
\<close>

partial_function (option) lock_wait_loop ::
  "lock_loop \<Rightarrow> pthread_t \<Rightarrow> handle_slot \<Rightarrow> heap \<Rightarrow> mutex_outcome option" where
  "lock_wait_loop loop self s h =
     (case lock_wake loop self s h of
        None \<Rightarrow> None
      | Some (Done out) \<Rightarrow> Some out
      | Some (Asleep loop1 s1 h1) \<Rightarrow> lock_wait_loop loop1 self s1 h1)"

declare lock_wait_loop.simps [code]

definition pthread_mutex_lock ::
  "handle_slot option \<Rightarrow> pthread_t \<Rightarrow> bool \<Rightarrow> heap \<Rightarrow> mutex_outcome option" where
  "pthread_mutex_lock mutex self mem_ok h =
     (case lock_begin mutex self mem_ok h of
        None \<Rightarrow> None
      | Some (Done out) \<Rightarrow> Some out
      | Some (Asleep loop s1 h1) \<Rightarrow> lock_wait_loop loop self s1 h1)"

section \<open>Sequences of calls and interleavings\<close>



text \<open>
  Threads calling the operations on one mutex location. Every operation holds the slot
  from its acquisition to its release, so between two releases exactly one segment of one
  call runs. A thread is outside any call, suspended in the waiting path of
  \<^verbatim>\<open>pthread_mutex_lock\<close> (in one of the three loops), or cancelled there
  (\<^verbatim>\<open>pthread_testcancel\<close> before the \<^verbatim>\<open>Sleep(0)\<close>). A segment that faults or never returns
  has no successor state.
\<close>

datatype tstate = Idle | InLock lock_loop | Cancelled

record system =
  slot :: handle_slot
  hp :: heap
  threads :: "pthread_t \<Rightarrow> tstate"

definition initial :: "system \<Rightarrow> bool" where
  "initial g \<longleftrightarrow>
     (slot g = Stored NULL \<or> slot g = Stored PTW32_OBJECT_AUTO_INIT) \<and> hp g = [] \<and>
     (\<forall>t. threads g t = Idle)"

inductive step :: "system \<Rightarrow> system \<Rightarrow> bool" where
  step_init:
    "threads g t = Idle \<Longrightarrow>
     pthread_mutex_init (Some (slot g)) attr mem_ok (hp g) = Some (Returns e (Some s1, h1)) \<Longrightarrow>
     step g (g\<lparr>slot := s1, hp := h1\<rparr>)"
| step_destroy:
    "threads g t = Idle \<Longrightarrow>
     pthread_mutex_destroy (Some (slot g)) (hp g) = Some (Returns e (Some s1, h1)) \<Longrightarrow>
     step g (g\<lparr>slot := s1, hp := h1\<rparr>)"
| step_unlock:
    "threads g t = Idle \<Longrightarrow>
     pthread_mutex_unlock (Some (slot g)) t (hp g) = Some (Returns e (Some s1, h1)) \<Longrightarrow>
     step g (g\<lparr>slot := s1, hp := h1\<rparr>)"
| step_trylock:
    "threads g t = Idle \<Longrightarrow>
     pthread_mutex_trylock (Some (slot g)) t mem_ok (hp g) = Some (Returns e (Some s1, h1)) \<Longrightarrow>
     step g (g\<lparr>slot := s1, hp := h1\<rparr>)"
| step_lock_return:
    "threads g t = Idle \<Longrightarrow>
     lock_begin (Some (slot g)) t mem_ok (hp g) = Some (Done (Returns e (Some s1, h1))) \<Longrightarrow>
     step g (g\<lparr>slot := s1, hp := h1\<rparr>)"
| step_lock_sleep:
    "threads g t = Idle \<Longrightarrow>
     lock_begin (Some (slot g)) t mem_ok (hp g) = Some (Asleep loop s1 h1) \<Longrightarrow>
     step g (g\<lparr>slot := s1, hp := h1, threads := (threads g)(t := InLock loop)\<rparr>)"
| step_wake_return:
    "threads g t = InLock loop \<Longrightarrow>
     lock_wake loop t (slot g) (hp g) = Some (Done (Returns e (Some s1, h1))) \<Longrightarrow>
     step g (g\<lparr>slot := s1, hp := h1, threads := (threads g)(t := Idle)\<rparr>)"
| step_wake_sleep:
    "threads g t = InLock loop \<Longrightarrow>
     lock_wake loop t (slot g) (hp g) = Some (Asleep loop1 s1 h1) \<Longrightarrow>
     step g (g\<lparr>slot := s1, hp := h1, threads := (threads g)(t := InLock loop1)\<rparr>)"
| step_cancel:
    "threads g t = InLock loop \<Longrightarrow>
     step g (g\<lparr>threads := (threads g)(t := Cancelled)\<rparr>)"

inductive reachable :: "system \<Rightarrow> bool" where
  reachable_initial: "initial g \<Longrightarrow> reachable g"
| reachable_step: "reachable g \<Longrightarrow> step g g1 \<Longrightarrow> reachable g1"

text \<open>
  What holds of every record between segments: no \<^verbatim>\<open>pthread_mutex_trylock\<close> is in flight.
\<close>

definition rec_ok :: "mutex_rec \<Rightarrow> bool" where
  "rec_ok r \<longleftrightarrow> try_lock r = 0"

definition heap_ok :: "heap \<Rightarrow> bool" where
  "heap_ok h \<longleftrightarrow> (\<forall>a r. heap_at h a = Some r \<longrightarrow> rec_ok r)"

section \<open>Properties\<close>

subsection \<open>Reading the handle slot and the heap\<close>

lemma PTW32_OBJECT_GET_Stored [simp]: "PTW32_OBJECT_GET (Stored v) = Some v"
  by (simp add: PTW32_OBJECT_GET.simps)

lemma spin_try_lock_zero [simp]: "try_lock r = 0 \<Longrightarrow> spin_try_lock r = Some ()"
  by (subst spin_try_lock.simps) simp

lemma heap_at_set: "heap_at (heap_set h a r) b = (if b = a \<and> a < length h then Some r else heap_at h b)"
  by (auto simp: heap_at_def heap_set_def)

lemma heap_at_new: "heap_at (heap_new h r) b = (if b = length h then Some r else heap_at h b)"
  by (auto simp: heap_at_def heap_new_def nth_append)

lemma heap_at_free: "heap_at (free h a) b = (if b = a then None else heap_at h b)"
  by (auto simp: heap_at_def free_def)

lemma heap_at_Some_less: "heap_at h a = Some r \<Longrightarrow> a < length h"
  by (auto simp: heap_at_def split: if_splits)

lemma heap_okD: "heap_ok h \<Longrightarrow> heap_at h a = Some r \<Longrightarrow> rec_ok r"
  by (simp add: heap_ok_def)

lemma heap_ok_set: "heap_ok h \<Longrightarrow> rec_ok r \<Longrightarrow> heap_ok (heap_set h a r)"
  by (auto simp: heap_ok_def heap_at_set split: if_splits)

lemma heap_ok_new: "heap_ok h \<Longrightarrow> rec_ok r \<Longrightarrow> heap_ok (heap_new h r)"
  by (auto simp: heap_ok_def heap_at_new split: if_splits)

lemma heap_ok_free: "heap_ok h \<Longrightarrow> heap_ok (free h a)"
  by (auto simp: heap_ok_def heap_at_free split: if_splits)

lemma deref_Some: "deref h mx = Some (a, r) \<longleftrightarrow> mx = Rec a \<and> heap_at h a = Some r"
  by (auto simp: deref_def split: pthread_mutex_t.splits option.splits)

lemma init_cases:
  "pthread_mutex_init mutex attr mem_ok h = Some (Returns e (s1, h1)) \<Longrightarrow>
     h1 = h \<or> (\<exists>t p. h1 = heap_new h \<lparr>lock_idx = - 1, try_lock = 0, owner = None, waiters = 0,
                           lastOwner = None, lastWaiter = None, mtype = t, pshared = p\<rparr>)"
  by (auto simp: pthread_mutex_init_def calloc_def Let_def
      split: option.splits if_splits bind_splits)

lemma init_heap_ok:
  "heap_ok h \<Longrightarrow> pthread_mutex_init mutex attr mem_ok h = Some (Returns e (s1, h1)) \<Longrightarrow> heap_ok h1"
  by (drule init_cases) (auto simp: rec_ok_def intro!: heap_ok_new)

lemma destroy_heap_ok:
  "heap_ok h \<Longrightarrow> pthread_mutex_destroy mutex h = Some (Returns e (s1, h1)) \<Longrightarrow> heap_ok h1"
  by (auto simp: pthread_mutex_destroy_def intro!: heap_ok_free
      split: option.splits if_splits bind_splits pthread_mutex_t.splits)

lemma unlock_heap_ok:
  "heap_ok h \<Longrightarrow> pthread_mutex_unlock mutex self h = Some (Returns e (s1, h1)) \<Longrightarrow> heap_ok h1"
  by (auto simp: pthread_mutex_unlock_def Let_def rec_ok_def
      split: option.splits if_splits bind_splits pthread_mutex_t.splits mutex_type.splits
      intro!: heap_ok_set dest: heap_okD)

lemma trylock_heap_ok:
  "heap_ok h \<Longrightarrow> pthread_mutex_trylock mutex self mem_ok h = Some (Returns e (s1, h1)) \<Longrightarrow> heap_ok h1"
  by (auto simp: pthread_mutex_trylock_def Let_def rec_ok_def deref_Some PTW32_OBJECT_TRYGET_def
        pthread_mutex_init_def calloc_def heap_at_new PTW32_OBJECT_SET_def
      split: option.splits if_splits outcome.splits prod.splits handle_slot.splits
      intro!: heap_ok_set heap_ok_new dest: heap_okD)

lemma lock_attempt_rec_ok:
  "rec_ok r \<Longrightarrow> lock_attempt loop self r = Some att \<Longrightarrow>
     rec_ok (case att of Locked r1 \<Rightarrow> r1 | Deadlk r1 \<Rightarrow> r1 | MustWait r1 \<Rightarrow> r1)"
  by (auto simp: lock_attempt_def Let_def rec_ok_def take_lock_def enter_wait_def
      split: if_splits)


lemma lock_iterate_heap_ok:
  "heap_ok h \<Longrightarrow> lock_iterate loop self mx h = Some seg \<Longrightarrow>
     (case seg of Done (Returns e (s1, h1)) \<Rightarrow> heap_ok h1 | Done Fault \<Rightarrow> True
        | Asleep l s1 h1 \<Rightarrow> heap_ok h1)"
  by (auto simp: lock_iterate_def deref_Some
      split: option.splits attempt.splits bind_splits
      intro!: heap_ok_set dest: heap_okD dest!: lock_attempt_rec_ok[rotated])

lemma lock_wake_heap_ok:
  "heap_ok h \<Longrightarrow> lock_wake loop self s h = Some seg \<Longrightarrow>
     (case seg of Done (Returns e (s1, h1)) \<Rightarrow> heap_ok h1 | Done Fault \<Rightarrow> True
        | Asleep l s1 h1 \<Rightarrow> heap_ok h1)"
  apply (auto simp: lock_wake_def deref_Some 
      split: option.splits bind_splits if_splits)
   apply (erule lock_iterate_heap_ok[rotated])
   apply (rule heap_ok_set, assumption)
   apply (drule (1) heap_okD, simp add: rec_ok_def)
   apply (erule lock_iterate_heap_ok[rotated], assumption)
  done

lemma lock_begin_Rec:
  "heap_at h a = Some r \<Longrightarrow>
   lock_begin (Some (Stored (Rec a))) self mem_ok h =
     (case mtype r of
        PTHREAD_MUTEX_NORMAL \<Rightarrow> lock_iterate LOOP_NORMAL self (Rec a) h
      | PTHREAD_MUTEX_ERRORCHECK \<Rightarrow> lock_iterate LOOP_ERRORCHECK self (Rec a) h
      | PTHREAD_MUTEX_OTHER \<Rightarrow> Some (Done (Returns EINVAL (Some (Stored (Rec a)), h)))
      | _ \<Rightarrow> lock_iterate LOOP_RECURSIVE self (Rec a) h)"
  by (simp add: lock_begin_def deref_def PTW32_OBJECT_SET_def split: mutex_type.splits)

lemma lock_begin_Rec_Fault:
  "heap_at h a = None \<Longrightarrow> lock_begin (Some (Stored (Rec a))) self mem_ok h = Some (Done Fault)"
  by (simp add: lock_begin_def deref_def)

lemma lock_begin_NULL:
  "lock_begin (Some (Stored NULL)) self mem_ok h = Some (Done (Returns EINVAL (Some (Stored NULL), h)))"
  by (simp add: lock_begin_def PTW32_OBJECT_SET_def)

lemma lock_begin_None:
  "lock_begin None self mem_ok h = Some (Done (Returns EINVAL (None, h)))"
  by (simp add: lock_begin_def)

lemma init_default:
  "pthread_mutex_init (Some (Stored v)) None mem_ok h =
     (if mem_ok
      then Some (Returns OK (Some (Stored (Rec (length h))),
        heap_new h \<lparr>lock_idx = - 1, try_lock = 0, owner = None, waiters = 0,
           lastOwner = None, lastWaiter = None, mtype = ptw32_mutex_mapped_default,
           pshared = PTHREAD_PROCESS_PRIVATE\<rparr>))
      else Some (Returns ENOMEM (Some (Stored NULL), h)))"
  by (simp add: pthread_mutex_init_def calloc_def PTW32_OBJECT_SET_def)

lemma lock_begin_AUTO_INIT:
  "lock_begin (Some (Stored PTW32_OBJECT_AUTO_INIT)) self mem_ok h =
     (case pthread_mutex_init (Some (Stored PTW32_OBJECT_AUTO_INIT)) None mem_ok h of
        Some (Returns OK (Some s1, h1)) \<Rightarrow> lock_begin (Some s1) self mem_ok h1
      | Some (Returns e sh) \<Rightarrow> Some (Done (Returns e sh))
      | Some Fault \<Rightarrow> Some (Done Fault)
      | None \<Rightarrow> None)"
  apply (simp add: init_default)
  apply (simp add: lock_begin_def init_default deref_def heap_at_new PTW32_OBJECT_SET_def
      ptw32_mutex_mapped_default_def)
  done

lemma PTW32_OBJECT_GET_Some: "PTW32_OBJECT_GET s = Some y \<Longrightarrow> s = Stored y"
  by (rule PTW32_OBJECT_GET.raw_induct [where P = "\<lambda>s y. s = Stored y"])
    (auto split: handle_slot.splits)

lemma PTW32_OBJECT_GET_Held: "PTW32_OBJECT_GET Held = None"
  using PTW32_OBJECT_GET_Some [of Held] by (cases "PTW32_OBJECT_GET Held") auto

lemma lock_begin_Held: "lock_begin (Some Held) self mem_ok h = None"
  by (simp add: lock_begin_def PTW32_OBJECT_GET_Held)

lemma lock_begin_heap_ok:
  assumes ok: "heap_ok h" and seg: "lock_begin mutex self mem_ok h = Some seg"
  shows "case seg of Done (Returns e (s1, h1)) \<Rightarrow> heap_ok h1 | Done Fault \<Rightarrow> True
        | Asleep l s1 h1 \<Rightarrow> heap_ok h1"
proof -
  have rec_case: "case seg of Done (Returns e (s1, h1)) \<Rightarrow> heap_ok h1 | Done Fault \<Rightarrow> True
        | Asleep l s1 h1 \<Rightarrow> heap_ok h1"
    if "heap_ok h0" "lock_begin (Some (Stored (Rec a))) self mem_ok h0 = Some seg" for a h0
  proof (cases "heap_at h0 a")
    case None
    with that show ?thesis by (auto simp: lock_begin_Rec_Fault)
  next
    case (Some r)
    with that show ?thesis
      by (cases "mtype r") (auto simp: lock_begin_Rec dest: lock_iterate_heap_ok)
  qed
  show ?thesis
  proof (cases mutex)
    case None
    with ok seg show ?thesis by (auto simp: lock_begin_None)
  next
    case (Some s)
    show ?thesis
    proof (cases s)
      case Held
      with Some seg show ?thesis by (simp add: lock_begin_Held)
    next
      case (Stored mx)
      show ?thesis
      proof (cases mx)
        case NULL
        with Some Stored ok seg show ?thesis by (auto simp: lock_begin_NULL)
      next
        case PTW32_OBJECT_AUTO_INIT
        show ?thesis
        proof (cases mem_ok)
          case True
          let ?r = "\<lparr>lock_idx = - 1, try_lock = 0, owner = None, waiters = 0,
             lastOwner = None, lastWaiter = None, mtype = ptw32_mutex_mapped_default,
             pshared = PTHREAD_PROCESS_PRIVATE\<rparr>"
          have "heap_ok (heap_new h ?r)"
            using ok by (rule heap_ok_new) (simp add: rec_ok_def)
          moreover have "lock_begin (Some (Stored (Rec (length h)))) self mem_ok (heap_new h ?r) = Some seg"
            using seg Some Stored PTW32_OBJECT_AUTO_INIT True
            by (simp add: lock_begin_AUTO_INIT init_default)
          ultimately show ?thesis by (rule rec_case)
        next
          case False
          with Some Stored PTW32_OBJECT_AUTO_INIT ok seg show ?thesis
            by (auto simp: lock_begin_AUTO_INIT init_default)
        qed
      next
        case (Rec a)
        with Some Stored ok seg show ?thesis by (auto intro: rec_case)
      qed
    qed
  qed
qed

lemma step_heap_ok: "step g g1 \<Longrightarrow> heap_ok (hp g) \<Longrightarrow> heap_ok (hp g1)"
proof (induct rule: step.induct)
  case (step_init g t attr mem_ok e s1 h1)
  then show ?case by (auto dest: init_heap_ok)
next
  case (step_destroy g t e s1 h1)
  then show ?case by (auto dest: destroy_heap_ok)
next
  case (step_unlock g t e s1 h1)
  then show ?case by (auto dest: unlock_heap_ok)
next
  case (step_trylock g t mem_ok e s1 h1)
  then show ?case by (auto dest: trylock_heap_ok)
next
  case (step_lock_return g t mem_ok e s1 h1)
  then show ?case by (auto dest: lock_begin_heap_ok)
next
  case (step_lock_sleep g t mem_ok loop s1 h1)
  then show ?case by (auto dest: lock_begin_heap_ok)
next
  case (step_wake_return g t loop e s1 h1)
  then show ?case by (auto dest: lock_wake_heap_ok)
next
  case (step_wake_sleep g t loop loop1 s1 h1)
  then show ?case by (auto dest: lock_wake_heap_ok)
next
  case (step_cancel g t loop)
  then show ?case by simp
qed

lemma reachable_heap_ok: "reachable g \<Longrightarrow> heap_ok (hp g)"
proof (induct rule: reachable.induct)
  case (reachable_initial g)
  then show ?case by (simp add: initial_def heap_ok_def heap_at_def)
next
  case (reachable_step g g1)
  then show ?case by (auto intro: step_heap_ok)
qed


subsection \<open>Attribute creation when the allocation fails\<close>

text \<open>
  Claim C10. \<^verbatim>\<open>pthread_mutexattr_init\<close> should return \<^verbatim>\<open>ENOMEM\<close> when \<^verbatim>\<open>calloc\<close> fails and
  touch nothing. The code sets \<^verbatim>\<open>result\<close> and then writes \<^verbatim>\<open>ma->pshared\<close> through the null
  pointer all the same: whatever \<open>attr\<close> points to, the call faults and returns nothing.
\<close>

theorem pthread_mutexattr_init_faults_without_memory:
  "pthread_mutexattr_init attr False = Fault"
  by (simp add: pthread_mutexattr_init_def attr_calloc_def)

subsection \<open>Unlock\<close>

text \<open>
  Claim C5. On the reserved value of a statically declared mutex, and on a record whose
  owner is not the caller, \<^verbatim>\<open>pthread_mutex_unlock\<close> returns \<^verbatim>\<open>EPERM\<close> and changes neither
  the handle nor the heap; a mutex that has just been initialised has no owner, so it is
  such a record. On a record the caller owns it returns 0: a normal or error-checking
  mutex loses its owner, any other type loses it only when the counter is 0, and the
  counter goes down by one in every case.
\<close>

theorem pthread_mutex_unlock_permission:
  "pthread_mutex_unlock (Some (Stored PTW32_OBJECT_AUTO_INIT)) self h =
     Some (Returns EPERM (Some (Stored PTW32_OBJECT_AUTO_INIT), h)) \<and>
   (heap_at h a = Some r \<longrightarrow>
      pthread_mutex_unlock (Some (Stored (Rec a))) self h =
        (if owner r \<noteq> Some self
         then Some (Returns EPERM (Some (Stored (Rec a)), h))
         else Some (Returns OK (Some (Stored (Rec a)),
                heap_set h a
                  (if mtype r = PTHREAD_MUTEX_NORMAL \<or> mtype r = PTHREAD_MUTEX_ERRORCHECK \<or>
                      lock_idx r = 0
                   then r\<lparr>owner := None, lock_idx := lock_idx r - 1\<rparr>
                   else r\<lparr>lock_idx := lock_idx r - 1\<rparr>))))) \<and>
   (pthread_mutex_init (Some s0) attr mem_ok h0 = Some (Returns OK (Some s1, h1)) \<longrightarrow>
      pthread_mutex_unlock (Some s1) self h1 = Some (Returns EPERM (Some s1, h1)))"
proof (intro conjI impI)
  show "pthread_mutex_unlock (Some (Stored PTW32_OBJECT_AUTO_INIT)) self h =
     Some (Returns EPERM (Some (Stored PTW32_OBJECT_AUTO_INIT), h))"
    by (simp add: pthread_mutex_unlock_def PTW32_OBJECT_SET_def)
next
  assume "heap_at h a = Some r"
  then show "pthread_mutex_unlock (Some (Stored (Rec a))) self h =
        (if owner r \<noteq> Some self
         then Some (Returns EPERM (Some (Stored (Rec a)), h))
         else Some (Returns OK (Some (Stored (Rec a)),
                heap_set h a
                  (if mtype r = PTHREAD_MUTEX_NORMAL \<or> mtype r = PTHREAD_MUTEX_ERRORCHECK \<or>
                      lock_idx r = 0
                   then r\<lparr>owner := None, lock_idx := lock_idx r - 1\<rparr>
                   else r\<lparr>lock_idx := lock_idx r - 1\<rparr>))))"
    by (cases "mtype r") (simp_all add: pthread_mutex_unlock_def PTW32_OBJECT_SET_def Let_def)
next
  assume "pthread_mutex_init (Some s0) attr mem_ok h0 = Some (Returns OK (Some s1, h1))"
  then show "pthread_mutex_unlock (Some s1) self h1 = Some (Returns EPERM (Some s1, h1))"
    by (auto simp: pthread_mutex_init_def calloc_def Let_def PTW32_OBJECT_SET_def
        pthread_mutex_unlock_def heap_at_new
        split: if_splits bind_splits option.splits)
qed

theorem pthread_mutex_unlock_permission_witness:
  "pthread_mutex_unlock (Some (Stored (Rec 0))) 1
     [Some \<lparr>lock_idx = 0, try_lock = 0, owner = Some 1, waiters = 0, lastOwner = Some 1,
        lastWaiter = None, mtype = PTHREAD_MUTEX_NORMAL, pshared = PTHREAD_PROCESS_PRIVATE\<rparr>] =
   Some (Returns OK (Some (Stored (Rec 0)),
     [Some \<lparr>lock_idx = - 1, try_lock = 0, owner = None, waiters = 0, lastOwner = Some 1,
        lastWaiter = None, mtype = PTHREAD_MUTEX_NORMAL, pshared = PTHREAD_PROCESS_PRIVATE\<rparr>])) \<and>
   pthread_mutex_unlock (Some (Stored (Rec 0))) 2
     [Some \<lparr>lock_idx = 0, try_lock = 0, owner = Some 1, waiters = 0, lastOwner = Some 1,
        lastWaiter = None, mtype = PTHREAD_MUTEX_NORMAL, pshared = PTHREAD_PROCESS_PRIVATE\<rparr>] =
   Some (Returns EPERM (Some (Stored (Rec 0)),
     [Some \<lparr>lock_idx = 0, try_lock = 0, owner = Some 1, waiters = 0, lastOwner = Some 1,
        lastWaiter = None, mtype = PTHREAD_MUTEX_NORMAL, pshared = PTHREAD_PROCESS_PRIVATE\<rparr>])) \<and>
   pthread_mutex_init (Some (Stored NULL)) None True [] =
     Some (Returns OK (Some (Stored (Rec 0)),
       [Some \<lparr>lock_idx = - 1, try_lock = 0, owner = None, waiters = 0, lastOwner = None,
          lastWaiter = None, mtype = PTHREAD_MUTEX_RECURSIVE, pshared = PTHREAD_PROCESS_PRIVATE\<rparr>])) \<and>
   pthread_mutex_unlock (Some (Stored (Rec 0))) 1
       [Some \<lparr>lock_idx = - 1, try_lock = 0, owner = None, waiters = 0, lastOwner = None,
          lastWaiter = None, mtype = PTHREAD_MUTEX_RECURSIVE, pshared = PTHREAD_PROCESS_PRIVATE\<rparr>] =
     Some (Returns EPERM (Some (Stored (Rec 0)),
       [Some \<lparr>lock_idx = - 1, try_lock = 0, owner = None, waiters = 0, lastOwner = None,
          lastWaiter = None, mtype = PTHREAD_MUTEX_RECURSIVE, pshared = PTHREAD_PROCESS_PRIVATE\<rparr>]))"
  using
    pthread_mutex_unlock_permission [where self = 1 and a = 0 and
      h = "[Some \<lparr>lock_idx = 0, try_lock = 0, owner = Some 1, waiters = 0, lastOwner = Some 1,
        lastWaiter = None, mtype = PTHREAD_MUTEX_NORMAL, pshared = PTHREAD_PROCESS_PRIVATE\<rparr>]" and
      r = "\<lparr>lock_idx = 0, try_lock = 0, owner = Some 1, waiters = 0, lastOwner = Some 1,
        lastWaiter = None, mtype = PTHREAD_MUTEX_NORMAL, pshared = PTHREAD_PROCESS_PRIVATE\<rparr>" and
      ?s0.0 = "Stored NULL" and attr = None and mem_ok = True and ?h0.0 = "[]" and
      ?s1.0 = "Stored (Rec 0)" and
      ?h1.0 = "[Some \<lparr>lock_idx = - 1, try_lock = 0, owner = None, waiters = 0, lastOwner = None,
          lastWaiter = None, mtype = PTHREAD_MUTEX_RECURSIVE, pshared = PTHREAD_PROCESS_PRIVATE\<rparr>]"]
    pthread_mutex_unlock_permission [where self = 2 and a = 0 and
      h = "[Some \<lparr>lock_idx = 0, try_lock = 0, owner = Some 1, waiters = 0, lastOwner = Some 1,
        lastWaiter = None, mtype = PTHREAD_MUTEX_NORMAL, pshared = PTHREAD_PROCESS_PRIVATE\<rparr>]" and
      r = "\<lparr>lock_idx = 0, try_lock = 0, owner = Some 1, waiters = 0, lastOwner = Some 1,
        lastWaiter = None, mtype = PTHREAD_MUTEX_NORMAL, pshared = PTHREAD_PROCESS_PRIVATE\<rparr>"]
  by (simp add: heap_at_def heap_set_def init_default heap_new_def ptw32_mutex_mapped_default_def)

subsection \<open>Trylock\<close>

text \<open>
  Claim C6. Whatever the type of the mutex and whoever its owner is (the caller
  included), \<^verbatim>\<open>pthread_mutex_trylock\<close> on a record whose counter is at least 0 (as a
  signed value) returns
  \<^verbatim>\<open>EBUSY\<close> and changes nothing. On a record whose counter is -1 it returns 0 and makes
  the caller the owner and the last owner, with no last waiter and the counter at 0.
\<close>

theorem pthread_mutex_trylock_never_recursive:
  "heap_at h a = Some r \<longrightarrow>
     (0 \<le> sint (lock_idx r) \<longrightarrow>
        pthread_mutex_trylock (Some (Stored (Rec a))) self mem_ok h =
          Some (Returns EBUSY (Some (Stored (Rec a)), h))) \<and>
     (lock_idx r = - 1 \<longrightarrow>
        pthread_mutex_trylock (Some (Stored (Rec a))) self mem_ok h =
          Some (Returns OK (Some (Stored (Rec a)),
            heap_set h a
              (r\<lparr>lock_idx := 0, owner := Some self, lastOwner := Some self,
                 lastWaiter := None\<rparr>))))"
  by (auto simp: pthread_mutex_trylock_def PTW32_OBJECT_TRYGET_def PTW32_OBJECT_SET_def
      deref_def Let_def eq_neg_iff_add_eq_0 [symmetric])


theorem pthread_mutex_trylock_never_recursive_witness:
  "pthread_mutex_trylock (Some (Stored (Rec 0))) 1 True
     [Some \<lparr>lock_idx = 0, try_lock = 0, owner = Some 1, waiters = 0, lastOwner = Some 1,
        lastWaiter = None, mtype = PTHREAD_MUTEX_RECURSIVE,
        pshared = PTHREAD_PROCESS_PRIVATE\<rparr>] =
   Some (Returns EBUSY (Some (Stored (Rec 0)),
     [Some \<lparr>lock_idx = 0, try_lock = 0, owner = Some 1, waiters = 0, lastOwner = Some 1,
        lastWaiter = None, mtype = PTHREAD_MUTEX_RECURSIVE,
        pshared = PTHREAD_PROCESS_PRIVATE\<rparr>])) \<and>
   pthread_mutex_trylock (Some (Stored (Rec 0))) 1 True
     [Some \<lparr>lock_idx = - 1, try_lock = 0, owner = None, waiters = 0, lastOwner = Some 2,
        lastWaiter = Some 3, mtype = PTHREAD_MUTEX_NORMAL,
        pshared = PTHREAD_PROCESS_PRIVATE\<rparr>] =
   Some (Returns OK (Some (Stored (Rec 0)),
     [Some \<lparr>lock_idx = 0, try_lock = 0, owner = Some 1, waiters = 0, lastOwner = Some 1,
        lastWaiter = None, mtype = PTHREAD_MUTEX_NORMAL,
        pshared = PTHREAD_PROCESS_PRIVATE\<rparr>]))"
  using
    pthread_mutex_trylock_never_recursive [where self = 1 and a = 0 and mem_ok = True and
      h = "[Some \<lparr>lock_idx = 0, try_lock = 0, owner = Some 1, waiters = 0,
        lastOwner = Some 1, lastWaiter = None, mtype = PTHREAD_MUTEX_RECURSIVE,
        pshared = PTHREAD_PROCESS_PRIVATE\<rparr>]" and
      r = "\<lparr>lock_idx = 0, try_lock = 0, owner = Some 1, waiters = 0,
        lastOwner = Some 1, lastWaiter = None, mtype = PTHREAD_MUTEX_RECURSIVE,
        pshared = PTHREAD_PROCESS_PRIVATE\<rparr>"]
    pthread_mutex_trylock_never_recursive [where self = 1 and a = 0 and mem_ok = True and
      h = "[Some \<lparr>lock_idx = - 1, try_lock = 0, owner = None, waiters = 0,
        lastOwner = Some 2, lastWaiter = Some 3, mtype = PTHREAD_MUTEX_NORMAL,
        pshared = PTHREAD_PROCESS_PRIVATE\<rparr>]" and
      r = "\<lparr>lock_idx = - 1, try_lock = 0, owner = None, waiters = 0,
        lastOwner = Some 2, lastWaiter = Some 3, mtype = PTHREAD_MUTEX_NORMAL,
        pshared = PTHREAD_PROCESS_PRIVATE\<rparr>"]
  by (simp add: heap_at_def heap_set_def)

subsection \<open>The fairness check of the blocking lock\<close>

text \<open>
  Claim C3. In each of the three loops of \<^verbatim>\<open>pthread_mutex_lock\<close>, when the increment brings
  the counter to 0 (it was -1), \<^verbatim>\<open>waiters\<close> is positive and the last owner is the caller:
  if the last waiter is the caller too, \<^verbatim>\<open>waiters\<close> is reset to 0 and the caller takes the
  lock (owner and last owner are the caller, no last waiter, the call returns 0);
  otherwise the increment is undone (the counter is -1 again), the caller is counted and
  recorded as a waiter, the owner stays empty and the call goes to sleep in the waiting
  path. The first pass of a call on a live record of a known type is such a pass.
\<close>

theorem lock_fairness_check:
  "heap_at h a = Some r \<and> lock_idx r = - 1 \<and> 0 < waiters r \<and> lastOwner r = Some self \<longrightarrow>
     lock_iterate loop self (Rec a) h =
       (if lastWaiter r = Some self
        then Some (Done (Returns OK (Some (Stored (Rec a)),
               heap_set h a
                 (r\<lparr>lock_idx := 0, waiters := 0, owner := Some self, lastOwner := Some self,
                    lastWaiter := None\<rparr>))))
        else Some (Asleep loop (Stored (Rec a))
               (heap_set h a (r\<lparr>waiters := waiters r + 1, lastWaiter := Some self\<rparr>)))) \<and>
     (mtype r \<noteq> PTHREAD_MUTEX_OTHER \<longrightarrow>
        (\<exists>loop1. lock_begin (Some (Stored (Rec a))) self mem_ok h =
                   lock_iterate loop1 self (Rec a) h))"
proof (intro impI conjI)
  assume a: "heap_at h a = Some r \<and> lock_idx r = - 1 \<and> 0 < waiters r \<and> lastOwner r = Some self"
  then have "lock_attempt loop self r =
      (if lastWaiter r = Some self
       then Some (Locked (r\<lparr>lock_idx := 0, waiters := 0, owner := Some self,
              lastOwner := Some self, lastWaiter := None\<rparr>))
       else Some (MustWait (r\<lparr>waiters := waiters r + 1, lastWaiter := Some self\<rparr>)))"
    by (cases r) (simp add: lock_attempt_def take_lock_def enter_wait_def Let_def)
  with a show "lock_iterate loop self (Rec a) h =
       (if lastWaiter r = Some self
        then Some (Done (Returns OK (Some (Stored (Rec a)),
               heap_set h a
                 (r\<lparr>lock_idx := 0, waiters := 0, owner := Some self, lastOwner := Some self,
                    lastWaiter := None\<rparr>))))
        else Some (Asleep loop (Stored (Rec a))
               (heap_set h a (r\<lparr>waiters := waiters r + 1, lastWaiter := Some self\<rparr>))))"
    by (simp add: lock_iterate_def deref_def PTW32_OBJECT_SET_def)
next
  assume "heap_at h a = Some r \<and> lock_idx r = - 1 \<and> 0 < waiters r \<and> lastOwner r = Some self"
    and "mtype r \<noteq> PTHREAD_MUTEX_OTHER"
  then show "\<exists>loop1. lock_begin (Some (Stored (Rec a))) self mem_ok h =
                   lock_iterate loop1 self (Rec a) h"
    by (cases "mtype r") (auto simp: lock_begin_Rec)
qed


theorem lock_fairness_check_witness:
  "lock_iterate LOOP_RECURSIVE 1 (Rec 0)
     [Some \<lparr>lock_idx = - 1, try_lock = 0, owner = None, waiters = 2, lastOwner = Some 1,
        lastWaiter = Some 1, mtype = PTHREAD_MUTEX_RECURSIVE,
        pshared = PTHREAD_PROCESS_PRIVATE\<rparr>] =
   Some (Done (Returns OK (Some (Stored (Rec 0)),
     [Some \<lparr>lock_idx = 0, try_lock = 0, owner = Some 1, waiters = 0, lastOwner = Some 1,
        lastWaiter = None, mtype = PTHREAD_MUTEX_RECURSIVE,
        pshared = PTHREAD_PROCESS_PRIVATE\<rparr>]))) \<and>
   lock_iterate LOOP_NORMAL 1 (Rec 0)
     [Some \<lparr>lock_idx = - 1, try_lock = 0, owner = None, waiters = 2, lastOwner = Some 1,
        lastWaiter = Some 2, mtype = PTHREAD_MUTEX_NORMAL,
        pshared = PTHREAD_PROCESS_PRIVATE\<rparr>] =
   Some (Asleep LOOP_NORMAL (Stored (Rec 0))
     [Some \<lparr>lock_idx = - 1, try_lock = 0, owner = None, waiters = 3, lastOwner = Some 1,
        lastWaiter = Some 1, mtype = PTHREAD_MUTEX_NORMAL,
        pshared = PTHREAD_PROCESS_PRIVATE\<rparr>])"
  using
    lock_fairness_check [where self = 1 and a = 0 and loop = LOOP_RECURSIVE and
      h = "[Some \<lparr>lock_idx = - 1, try_lock = 0, owner = None, waiters = 2,
        lastOwner = Some 1, lastWaiter = Some 1, mtype = PTHREAD_MUTEX_RECURSIVE,
        pshared = PTHREAD_PROCESS_PRIVATE\<rparr>]" and
      r = "\<lparr>lock_idx = - 1, try_lock = 0, owner = None, waiters = 2,
        lastOwner = Some 1, lastWaiter = Some 1, mtype = PTHREAD_MUTEX_RECURSIVE,
        pshared = PTHREAD_PROCESS_PRIVATE\<rparr>"]
    lock_fairness_check [where self = 1 and a = 0 and loop = LOOP_NORMAL and
      h = "[Some \<lparr>lock_idx = - 1, try_lock = 0, owner = None, waiters = 2,
        lastOwner = Some 1, lastWaiter = Some 2, mtype = PTHREAD_MUTEX_NORMAL,
        pshared = PTHREAD_PROCESS_PRIVATE\<rparr>]" and
      r = "\<lparr>lock_idx = - 1, try_lock = 0, owner = None, waiters = 2,
        lastOwner = Some 1, lastWaiter = Some 2, mtype = PTHREAD_MUTEX_NORMAL,
        pshared = PTHREAD_PROCESS_PRIVATE\<rparr>"]
  by (simp add: heap_at_def heap_set_def)

subsection \<open>Destroy\<close>

text \<open>
  Claim C7, as the spec states it: on the reserved value of a statically declared mutex
  \<^verbatim>\<open>pthread_mutex_destroy\<close> is a no-op that returns 0. It is not: the call stores
  \<^verbatim>\<open>NULL\<close> into the handle, which is afterwards no longer the reserved value.
\<close>

theorem pthread_mutex_destroy_sentinel_not_noop:
  "pthread_mutex_destroy (Some (Stored PTW32_OBJECT_AUTO_INIT)) [] \<noteq>
     Some (Returns OK (Some (Stored PTW32_OBJECT_AUTO_INIT), []))"
  by (simp add: pthread_mutex_destroy_def PTW32_OBJECT_SET_def)

text \<open>
  Claim C7, amended. \<^verbatim>\<open>pthread_mutex_destroy\<close> returns \<^verbatim>\<open>EINVAL\<close> for a null pointer and
  for a handle that holds \<^verbatim>\<open>NULL\<close>. On the reserved value it returns 0, frees nothing and
  stores \<^verbatim>\<open>NULL\<close> into the handle. On a record with an owner it returns \<^verbatim>\<open>EBUSY\<close> and
  changes neither the handle nor the heap. On a record without an owner it returns 0,
  frees the record and stores \<^verbatim>\<open>NULL\<close> into the handle. When the owner \<open>t\<close> of a record
  releases it (one \<^verbatim>\<open>pthread_mutex_unlock\<close> on a normal or error-checking mutex, or on
  any mutex whose counter is 0), a following destroy succeeds.
\<close>

theorem pthread_mutex_destroy_cases:
  "pthread_mutex_destroy None h = Some (Returns EINVAL (None, h)) \<and>
   pthread_mutex_destroy (Some (Stored NULL)) h = Some (Returns EINVAL (Some (Stored NULL), h)) \<and>
   pthread_mutex_destroy (Some (Stored PTW32_OBJECT_AUTO_INIT)) h =
     Some (Returns OK (Some (Stored NULL), h)) \<and>
   (heap_at h a = Some r \<and> owner r \<noteq> None \<longrightarrow>
      pthread_mutex_destroy (Some (Stored (Rec a))) h =
        Some (Returns EBUSY (Some (Stored (Rec a)), h))) \<and>
   (heap_at h a = Some r \<and> owner r = None \<longrightarrow>
      pthread_mutex_destroy (Some (Stored (Rec a))) h =
        Some (Returns OK (Some (Stored NULL), free h a)) \<and>
      heap_at (free h a) a = None) \<and>
   (heap_at h a = Some r \<and> owner r = Some t \<and>
      (mtype r = PTHREAD_MUTEX_NORMAL \<or> mtype r = PTHREAD_MUTEX_ERRORCHECK \<or> lock_idx r = 0) \<longrightarrow>
      pthread_mutex_unlock (Some (Stored (Rec a))) t h =
        Some (Returns OK (Some (Stored (Rec a)),
          heap_set h a (r\<lparr>owner := None, lock_idx := lock_idx r - 1\<rparr>))) \<and>
      pthread_mutex_destroy (Some (Stored (Rec a)))
          (heap_set h a (r\<lparr>owner := None, lock_idx := lock_idx r - 1\<rparr>)) =
        Some (Returns OK (Some (Stored NULL), free h a)))"
proof (intro conjI impI)
  assume a: "heap_at h a = Some r \<and> owner r = Some t \<and>
      (mtype r = PTHREAD_MUTEX_NORMAL \<or> mtype r = PTHREAD_MUTEX_ERRORCHECK \<or> lock_idx r = 0)"
  then show "pthread_mutex_unlock (Some (Stored (Rec a))) t h =
        Some (Returns OK (Some (Stored (Rec a)),
          heap_set h a (r\<lparr>owner := None, lock_idx := lock_idx r - 1\<rparr>)))"
    by (cases "mtype r") (auto simp: pthread_mutex_unlock_def PTW32_OBJECT_SET_def Let_def)
  let ?r1 = "r\<lparr>owner := None, lock_idx := lock_idx r - 1\<rparr>"
  from a have "a < length h" by (auto dest: heap_at_Some_less)
  then have "heap_at (heap_set h a ?r1) a = Some ?r1" by (simp add: heap_at_set)
  moreover have "free (heap_set h a ?r1) a = free h a" by (simp add: free_def heap_set_def)
  ultimately show "pthread_mutex_destroy (Some (Stored (Rec a))) (heap_set h a ?r1) =
        Some (Returns OK (Some (Stored NULL), free h a))"
    by (simp add: pthread_mutex_destroy_def PTW32_OBJECT_SET_def)
qed (auto simp: pthread_mutex_destroy_def PTW32_OBJECT_SET_def heap_at_free)


theorem pthread_mutex_destroy_cases_witness:
  "pthread_mutex_destroy (Some (Stored (Rec 0)))
     [Some \<lparr>lock_idx = 0, try_lock = 0, owner = Some 1, waiters = 0, lastOwner = Some 1,
        lastWaiter = None, mtype = PTHREAD_MUTEX_NORMAL,
        pshared = PTHREAD_PROCESS_PRIVATE\<rparr>] =
   Some (Returns EBUSY (Some (Stored (Rec 0)),
     [Some \<lparr>lock_idx = 0, try_lock = 0, owner = Some 1, waiters = 0, lastOwner = Some 1,
        lastWaiter = None, mtype = PTHREAD_MUTEX_NORMAL,
        pshared = PTHREAD_PROCESS_PRIVATE\<rparr>])) \<and>
   pthread_mutex_unlock (Some (Stored (Rec 0))) 1
     [Some \<lparr>lock_idx = 0, try_lock = 0, owner = Some 1, waiters = 0, lastOwner = Some 1,
        lastWaiter = None, mtype = PTHREAD_MUTEX_NORMAL,
        pshared = PTHREAD_PROCESS_PRIVATE\<rparr>] =
   Some (Returns OK (Some (Stored (Rec 0)),
     [Some \<lparr>lock_idx = - 1, try_lock = 0, owner = None, waiters = 0, lastOwner = Some 1,
        lastWaiter = None, mtype = PTHREAD_MUTEX_NORMAL,
        pshared = PTHREAD_PROCESS_PRIVATE\<rparr>])) \<and>
   pthread_mutex_destroy (Some (Stored (Rec 0)))
     [Some \<lparr>lock_idx = - 1, try_lock = 0, owner = None, waiters = 0, lastOwner = Some 1,
        lastWaiter = None, mtype = PTHREAD_MUTEX_NORMAL,
        pshared = PTHREAD_PROCESS_PRIVATE\<rparr>] =
   Some (Returns OK (Some (Stored NULL), [None]))"
  using
    pthread_mutex_destroy_cases [where a = 0 and t = 1 and
      h = "[Some \<lparr>lock_idx = 0, try_lock = 0, owner = Some 1, waiters = 0,
        lastOwner = Some 1, lastWaiter = None, mtype = PTHREAD_MUTEX_NORMAL,
        pshared = PTHREAD_PROCESS_PRIVATE\<rparr>]" and
      r = "\<lparr>lock_idx = 0, try_lock = 0, owner = Some 1, waiters = 0,
        lastOwner = Some 1, lastWaiter = None, mtype = PTHREAD_MUTEX_NORMAL,
        pshared = PTHREAD_PROCESS_PRIVATE\<rparr>"]
    pthread_mutex_destroy_cases [where a = 0 and
      h = "[Some \<lparr>lock_idx = - 1, try_lock = 0, owner = None, waiters = 0,
        lastOwner = Some 1, lastWaiter = None, mtype = PTHREAD_MUTEX_NORMAL,
        pshared = PTHREAD_PROCESS_PRIVATE\<rparr>]" and
      r = "\<lparr>lock_idx = - 1, try_lock = 0, owner = None, waiters = 0,
        lastOwner = Some 1, lastWaiter = None, mtype = PTHREAD_MUTEX_NORMAL,
        pshared = PTHREAD_PROCESS_PRIVATE\<rparr>"]
  by (simp add: heap_at_def free_def heap_set_def)

subsection \<open>Init\<close>

text \<open>
  Claim C8, as the spec states it: unless the pointer is null or the attributes are
  shared, \<^verbatim>\<open>pthread_mutex_init\<close> installs a fresh record. It does not when \<^verbatim>\<open>calloc\<close>
  fails: the call returns \<^verbatim>\<open>ENOMEM\<close>, there is no new record, and the handle holds
  \<^verbatim>\<open>NULL\<close>.
\<close>

theorem pthread_mutex_init_alloc_failure:
  "pthread_mutex_init (Some (Stored NULL)) None False [] =
     Some (Returns ENOMEM (Some (Stored NULL), [])) \<and>
   pthread_mutex_init (Some (Stored NULL)) None False [] \<noteq>
     Some (Returns OK (Some (Stored (Rec 0)),
       [Some \<lparr>lock_idx = - 1, try_lock = 0, owner = None, waiters = 0, lastOwner = None,
          lastWaiter = None, mtype = PTHREAD_MUTEX_RECURSIVE,
          pshared = PTHREAD_PROCESS_PRIVATE\<rparr>]))"
  by (simp add: init_default)

text \<open>
  Claim C8, amended. \<^verbatim>\<open>pthread_mutex_init\<close> returns \<^verbatim>\<open>EINVAL\<close> for a null pointer. Let
  \<open>at\<close> be the attributes supplied, or private and default when none are (the pointer or
  the attribute object is null). If \<open>at\<close> is shared the call returns \<^verbatim>\<open>ENOSYS\<close> and changes
  neither the handle nor the heap. Otherwise, if the allocation succeeds, it returns 0 and
  the handle holds the address of a new record with counter -1, no trylock in flight, no
  owner, no waiters, no last owner and no last waiter, the shared flag of \<open>at\<close>, and the
  type of \<open>at\<close> with default mapped to recursive; if the allocation fails, it returns
  \<^verbatim>\<open>ENOMEM\<close>, the heap is unchanged and the handle holds \<^verbatim>\<open>NULL\<close>.
\<close>

theorem pthread_mutex_init_cases:
  "pthread_mutex_init None attr mem_ok h = Some (Returns EINVAL (None, h)) \<and>
   (at = (case attr of Some (Some x) \<Rightarrow> x
          | _ \<Rightarrow> \<lparr>attr_pshared = PTHREAD_PROCESS_PRIVATE, attr_type = PTHREAD_MUTEX_DEFAULT\<rparr>) \<longrightarrow>
      pthread_mutex_init (Some (Stored v)) attr mem_ok h =
        (if attr_pshared at = PTHREAD_PROCESS_SHARED
         then Some (Returns ENOSYS (Some (Stored v), h))
         else if mem_ok
         then Some (Returns OK (Some (Stored (Rec (length h))),
                h @ [Some \<lparr>lock_idx = - 1, try_lock = 0, owner = None, waiters = 0,
                       lastOwner = None, lastWaiter = None,
                       mtype = (if attr_type at = PTHREAD_MUTEX_DEFAULT
                                then PTHREAD_MUTEX_RECURSIVE else attr_type at),
                       pshared = attr_pshared at\<rparr>]))
         else Some (Returns ENOMEM (Some (Stored NULL), h))))"
  by (auto simp: pthread_mutex_init_def calloc_def heap_new_def PTW32_OBJECT_SET_def Let_def
      ptw32_mutex_mapped_default_def split: option.splits)

theorem pthread_mutex_init_cases_witness:
  "pthread_mutex_init (Some (Stored NULL))
     (Some (Some \<lparr>attr_pshared = PTHREAD_PROCESS_SHARED, attr_type = PTHREAD_MUTEX_NORMAL\<rparr>))
     True [] =
   Some (Returns ENOSYS (Some (Stored NULL), [])) \<and>
   pthread_mutex_init (Some (Stored NULL))
     (Some (Some \<lparr>attr_pshared = PTHREAD_PROCESS_PRIVATE, attr_type = PTHREAD_MUTEX_DEFAULT\<rparr>))
     True [] =
   Some (Returns OK (Some (Stored (Rec 0)),
     [Some \<lparr>lock_idx = - 1, try_lock = 0, owner = None, waiters = 0, lastOwner = None,
        lastWaiter = None, mtype = PTHREAD_MUTEX_RECURSIVE,
        pshared = PTHREAD_PROCESS_PRIVATE\<rparr>])) \<and>
   pthread_mutex_init (Some (Stored PTW32_OBJECT_AUTO_INIT)) None True [] =
   Some (Returns OK (Some (Stored (Rec 0)),
     [Some \<lparr>lock_idx = - 1, try_lock = 0, owner = None, waiters = 0, lastOwner = None,
        lastWaiter = None, mtype = PTHREAD_MUTEX_RECURSIVE,
        pshared = PTHREAD_PROCESS_PRIVATE\<rparr>])) \<and>
   pthread_mutex_init (Some (Stored NULL))
     (Some (Some \<lparr>attr_pshared = PTHREAD_PROCESS_PRIVATE, attr_type = PTHREAD_MUTEX_ERRORCHECK\<rparr>))
     False [] =
   Some (Returns ENOMEM (Some (Stored NULL), []))"
  using
    pthread_mutex_init_cases [where v = NULL and mem_ok = True and h = "[]" and
      attr = "Some (Some \<lparr>attr_pshared = PTHREAD_PROCESS_SHARED,
        attr_type = PTHREAD_MUTEX_NORMAL\<rparr>)" and
      at = "\<lparr>attr_pshared = PTHREAD_PROCESS_SHARED, attr_type = PTHREAD_MUTEX_NORMAL\<rparr>"]
    pthread_mutex_init_cases [where v = NULL and mem_ok = True and h = "[]" and
      attr = "Some (Some \<lparr>attr_pshared = PTHREAD_PROCESS_PRIVATE,
        attr_type = PTHREAD_MUTEX_DEFAULT\<rparr>)" and
      at = "\<lparr>attr_pshared = PTHREAD_PROCESS_PRIVATE, attr_type = PTHREAD_MUTEX_DEFAULT\<rparr>"]
    pthread_mutex_init_cases [where v = PTW32_OBJECT_AUTO_INIT and mem_ok = True and h = "[]" and
      attr = None and
      at = "\<lparr>attr_pshared = PTHREAD_PROCESS_PRIVATE, attr_type = PTHREAD_MUTEX_DEFAULT\<rparr>"]
    pthread_mutex_init_cases [where v = NULL and mem_ok = False and h = "[]" and
      attr = "Some (Some \<lparr>attr_pshared = PTHREAD_PROCESS_PRIVATE,
        attr_type = PTHREAD_MUTEX_ERRORCHECK\<rparr>)" and
      at = "\<lparr>attr_pshared = PTHREAD_PROCESS_PRIVATE, attr_type = PTHREAD_MUTEX_ERRORCHECK\<rparr>"]
  by simp


subsection \<open>Arithmetic of the 32-bit lock counter\<close>

lemma lock_idx_inc_eq_0: "x + 1 = 0 \<longleftrightarrow> x = - 1" for x :: "32 word"
  by (simp add: eq_neg_iff_add_eq_0)

lemma unat_lock_idx_max: "unat (- 1 :: 32 word) = 4294967295"
  by (simp add: unsigned_minus_1_eq_mask mask_eq_exp_minus_1)


lemma unat_lock_idx_of_nat: "n < 4294967296 \<Longrightarrow> unat (of_nat n :: 32 word) = n"
  by (rule of_nat_inverse) simp_all

lemma lock_idx_of_nat_not_max: "n < 4294967295 \<Longrightarrow> (of_nat n :: 32 word) \<noteq> - 1"
proof
  assume n: "n < 4294967295" and "(of_nat n :: 32 word) = - 1"
  then have "unat (of_nat n :: 32 word) = 4294967295"
    by (simp add: unat_lock_idx_max)
  moreover from n have "unat (of_nat n :: 32 word) = n"
    by (simp add: unat_lock_idx_of_nat)
  ultimately show False
    using n by simp
qed


lemma sint_lock_idx_inc:
  "sint x \<noteq> 2147483647 \<Longrightarrow> sint (x + 1) = sint x + 1" for x :: "32 word"
proof -
  assume "sint x \<noteq> 2147483647"
  moreover have "- 2147483648 \<le> sint x" "sint x < 2147483648"
    using sint_ge [of x] sint_lt [of x] by simp_all
  ultimately have "- (2 ^ 31) \<le> sint x + 1" "sint x + 1 < 2 ^ 31"
    by simp_all
  then have "signed_take_bit 31 (sint x + 1) = sint x + 1"
    by (simp add: signed_take_bit_int_eq_self)
  then show ?thesis
    by (simp add: sint_word_ariths)
qed

subsection \<open>Recursive locking\<close>








lemma lock_iterate_free:
  "heap_at h a = Some r \<Longrightarrow> lock_idx r = - 1 \<Longrightarrow>
   lock_iterate loop self (Rec a) h =
     (if 0 < waiters r \<and> lastOwner r = Some self \<and> lastWaiter r \<noteq> Some self
      then Some (Asleep loop (Stored (Rec a))
             (heap_set h a (r\<lparr>waiters := waiters r + 1, lastWaiter := Some self\<rparr>)))
      else Some (Done (Returns OK (Some (Stored (Rec a)),
             heap_set h a
               (r\<lparr>lock_idx := 0,
                  waiters := (if 0 < waiters r \<and> lastOwner r = Some self then 0 else waiters r),
                  owner := Some self, lastOwner := Some self, lastWaiter := None\<rparr>)))))"
  by (cases r) (simp add: lock_iterate_def deref_def lock_attempt_def Let_def take_lock_def
      enter_wait_def PTW32_OBJECT_SET_def)












subsection \<open>Relocking an error-checking mutex\<close>

lemma lock_iterate_errorcheck_owner:
  "heap_at h a = Some r \<Longrightarrow> owner r = Some self \<Longrightarrow> lock_idx r \<noteq> - 1 \<Longrightarrow> try_lock r = 0 \<Longrightarrow>
   lock_iterate LOOP_ERRORCHECK self (Rec a) h =
     Some (Done (Returns EDEADLK (Some (Stored (Rec a)),
       heap_set h a (r\<lparr>lock_idx := lock_idx r + 1\<rparr>))))"
  by (simp add: lock_iterate_def deref_def lock_attempt_def Let_def PTW32_OBJECT_SET_def
      lock_idx_inc_eq_0)

text \<open>
  A state the operations reach: an error-checking mutex, initialised and then locked by
  thread 1.
\<close>

lemma reachable_errorcheck_locked:
  "reachable \<lparr>slot = Stored (Rec 0),
     hp = [Some \<lparr>lock_idx = 0, try_lock = 0, owner = Some 1, waiters = 0, lastOwner = Some 1,
       lastWaiter = None, mtype = PTHREAD_MUTEX_ERRORCHECK, pshared = PTHREAD_PROCESS_PRIVATE\<rparr>],
     threads = \<lambda>t. Idle\<rparr>"
proof -
  let ?g0 = "\<lparr>slot = Stored NULL, hp = [], threads = \<lambda>t. Idle\<rparr>"
  let ?r1 = "\<lparr>lock_idx = - 1, try_lock = 0, owner = None, waiters = 0, lastOwner = None,
       lastWaiter = None, mtype = PTHREAD_MUTEX_ERRORCHECK, pshared = PTHREAD_PROCESS_PRIVATE\<rparr>"
  let ?g1 = "\<lparr>slot = Stored (Rec 0), hp = [Some ?r1], threads = \<lambda>t. Idle\<rparr>"
  let ?r2 = "\<lparr>lock_idx = 0, try_lock = 0, owner = Some 1, waiters = 0, lastOwner = Some 1,
       lastWaiter = None, mtype = PTHREAD_MUTEX_ERRORCHECK, pshared = PTHREAD_PROCESS_PRIVATE\<rparr>"
  have "reachable ?g0"
    by (rule reachable_initial) (simp add: initial_def)
  moreover have "step ?g0 (?g0\<lparr>slot := Stored (Rec 0), hp := [Some ?r1]\<rparr>)"
    by (rule step_init [where t = 1 and mem_ok = True and e = OK and
          attr = "Some (Some \<lparr>attr_pshared = PTHREAD_PROCESS_PRIVATE,
            attr_type = PTHREAD_MUTEX_ERRORCHECK\<rparr>)"])
      (simp_all add: pthread_mutex_init_def calloc_def heap_new_def PTW32_OBJECT_SET_def)
  ultimately have "reachable ?g1"
    by (auto dest: reachable_step)
  moreover have "step ?g1 (?g1\<lparr>slot := Stored (Rec 0), hp := [Some ?r2]\<rparr>)"
    by (rule step_lock_return [where t = 1 and mem_ok = True and e = OK])
      (simp_all add: lock_begin_Rec heap_at_def lock_iterate_free heap_set_def)
  ultimately show ?thesis
    by (auto dest: reachable_step)
qed

text \<open>
  Every further lock by the owner returns \<^verbatim>\<open>EDEADLK\<close> and leaves the counter one higher, so
  the operations reach every value of the counter on an owned error-checking mutex: after
  \<open>n\<close> such calls the counter is \<open>n\<close>, up to 4294967295, which is -1.
\<close>

lemma reachable_errorcheck_relocked:
  "n \<le> 4294967295 \<Longrightarrow>
   reachable \<lparr>slot = Stored (Rec 0),
     hp = [Some \<lparr>lock_idx = of_nat n, try_lock = 0, owner = Some 1, waiters = 0,
       lastOwner = Some 1, lastWaiter = None, mtype = PTHREAD_MUTEX_ERRORCHECK,
       pshared = PTHREAD_PROCESS_PRIVATE\<rparr>],
     threads = \<lambda>t. Idle\<rparr>"
proof (induction n)
  case 0
  show ?case using reachable_errorcheck_locked by simp
next
  case (Suc n)
  let ?r = "\<lambda>k. \<lparr>lock_idx = k, try_lock = 0, owner = Some (Suc 0), waiters = 0,
       lastOwner = Some (Suc 0), lastWaiter = None, mtype = PTHREAD_MUTEX_ERRORCHECK,
       pshared = PTHREAD_PROCESS_PRIVATE\<rparr>"
  let ?g = "\<lambda>k. \<lparr>slot = Stored (Rec 0), hp = [Some (?r k)], threads = \<lambda>t. Idle\<rparr>"
  have ne: "(of_nat n :: 32 word) \<noteq> - 1"
    using Suc.prems by (intro lock_idx_of_nat_not_max) simp
  have r: "reachable (?g (of_nat n))"
    using Suc by simp
  have at: "heap_at [Some (?r (of_nat n))] 0 = Some (?r (of_nat n))"
    by (simp add: heap_at_def)
  have "lock_begin (Some (Stored (Rec 0))) (Suc 0) True [Some (?r (of_nat n))] =
      Some (Done (Returns EDEADLK (Some (Stored (Rec 0)), [Some (?r (of_nat n + 1))])))"
    using lock_iterate_errorcheck_owner [OF at, of "Suc 0"] ne
    by (simp add: lock_begin_Rec [OF at] heap_set_def)
  then have "step (?g (of_nat n))
      ((?g (of_nat n))\<lparr>slot := Stored (Rec 0), hp := [Some (?r (of_nat n + 1))]\<rparr>)"
    by (intro step_lock_return [where t = "Suc 0" and mem_ok = True and e = EDEADLK]) simp_all
  with r have "reachable (?g (of_nat n + 1))"
    by (auto dest: reachable_step)
  then show ?case
    by (simp add: ac_simps)
qed

text \<open>
  Claim C2, as the spec states it: on an error-checking mutex whose owner is the caller,
  \<^verbatim>\<open>pthread_mutex_lock\<close> returns \<^verbatim>\<open>EDEADLK\<close> and leaves the counter exactly one greater. The
  counter has 32 bits and the increment on this path is never undone. The operations reach
  an owned record whose counter is 2147483647: there the call returns \<^verbatim>\<open>EDEADLK\<close> and leaves
  the counter at -2147483648. They reach an owned record whose counter is -1: there the
  increment gives 0, and the call takes the lock again and returns 0.
\<close>

theorem errorcheck_relock_counter_wraps:
  "reachable \<lparr>slot = Stored (Rec 0),
     hp = [Some \<lparr>lock_idx = - 1, try_lock = 0, owner = Some 1, waiters = 0,
       lastOwner = Some 1, lastWaiter = None, mtype = PTHREAD_MUTEX_ERRORCHECK,
       pshared = PTHREAD_PROCESS_PRIVATE\<rparr>],
     threads = \<lambda>t. Idle\<rparr> \<and>
   pthread_mutex_lock (Some (Stored (Rec 0))) 1 True
     [Some \<lparr>lock_idx = - 1, try_lock = 0, owner = Some 1, waiters = 0,
       lastOwner = Some 1, lastWaiter = None, mtype = PTHREAD_MUTEX_ERRORCHECK,
       pshared = PTHREAD_PROCESS_PRIVATE\<rparr>] =
   Some (Returns OK (Some (Stored (Rec 0)),
     [Some \<lparr>lock_idx = 0, try_lock = 0, owner = Some 1, waiters = 0,
       lastOwner = Some 1, lastWaiter = None, mtype = PTHREAD_MUTEX_ERRORCHECK,
       pshared = PTHREAD_PROCESS_PRIVATE\<rparr>])) \<and>
   reachable \<lparr>slot = Stored (Rec 0),
     hp = [Some \<lparr>lock_idx = 2147483647, try_lock = 0, owner = Some 1, waiters = 0,
       lastOwner = Some 1, lastWaiter = None, mtype = PTHREAD_MUTEX_ERRORCHECK,
       pshared = PTHREAD_PROCESS_PRIVATE\<rparr>],
     threads = \<lambda>t. Idle\<rparr> \<and>
   pthread_mutex_lock (Some (Stored (Rec 0))) 1 True
     [Some \<lparr>lock_idx = 2147483647, try_lock = 0, owner = Some 1, waiters = 0,
       lastOwner = Some 1, lastWaiter = None, mtype = PTHREAD_MUTEX_ERRORCHECK,
       pshared = PTHREAD_PROCESS_PRIVATE\<rparr>] =
   Some (Returns EDEADLK (Some (Stored (Rec 0)),
     [Some \<lparr>lock_idx = - 2147483648, try_lock = 0, owner = Some 1, waiters = 0,
       lastOwner = Some 1, lastWaiter = None, mtype = PTHREAD_MUTEX_ERRORCHECK,
       pshared = PTHREAD_PROCESS_PRIVATE\<rparr>])) \<and>
   sint (2147483647 :: 32 word) = 2147483647 \<and>
   sint (- 2147483648 :: 32 word) = - 2147483648"
proof -
  let ?r = "\<lambda>k. \<lparr>lock_idx = k, try_lock = 0, owner = Some (Suc 0), waiters = 0,
       lastOwner = Some (Suc 0), lastWaiter = None, mtype = PTHREAD_MUTEX_ERRORCHECK,
       pshared = PTHREAD_PROCESS_PRIVATE\<rparr>"
  have at: "heap_at [Some (?r k)] 0 = Some (?r k)" for k
    by (simp add: heap_at_def)
  have w: "(4294967295 :: 32 word) = - 1"
    by simp
  have r1: "reachable \<lparr>slot = Stored (Rec 0), hp = [Some (?r (- 1))], threads = \<lambda>t. Idle\<rparr>"
    using reachable_errorcheck_relocked [of 4294967295] by (simp add: w)
  have r2: "reachable \<lparr>slot = Stored (Rec 0), hp = [Some (?r 2147483647)],
      threads = \<lambda>t. Idle\<rparr>"
    using reachable_errorcheck_relocked [of 2147483647] by simp
  have l1: "pthread_mutex_lock (Some (Stored (Rec 0))) (Suc 0) True [Some (?r (- 1))] =
      Some (Returns OK (Some (Stored (Rec 0)), [Some (?r 0)]))"
    using lock_iterate_free [OF at [of "- 1"], of LOOP_ERRORCHECK "Suc 0"]
    by (simp add: pthread_mutex_lock_def lock_begin_Rec [OF at] heap_set_def)
  have l2: "pthread_mutex_lock (Some (Stored (Rec 0))) (Suc 0) True [Some (?r 2147483647)] =
      Some (Returns EDEADLK (Some (Stored (Rec 0)), [Some (?r (- 2147483648))]))"
    using lock_iterate_errorcheck_owner [OF at [of 2147483647], of "Suc 0"]
    by (simp add: pthread_mutex_lock_def lock_begin_Rec [OF at] heap_set_def)
  from r1 r2 l1 l2 show ?thesis
    by simp
qed

text \<open>
  Claim C2, amended. Take an error-checking mutex in a state the operations can reach,
  whose owner is the caller and whose counter is not -1. \<^verbatim>\<open>pthread_mutex_lock\<close> returns
  \<^verbatim>\<open>EDEADLK\<close> in its first segment, that is without going through the waiting path, and
  the record it leaves differs from the one it found in the counter alone, which has been
  incremented and not decremented again: it is exactly one greater unless it was
  2147483647, the largest value of the 32-bit counter.
\<close>

theorem errorcheck_relock_deadlock:
  assumes "reachable g" "slot g = Stored (Rec a)" "heap_at (hp g) a = Some r"
    and "mtype r = PTHREAD_MUTEX_ERRORCHECK" "owner r = Some self"
    and "lock_idx r \<noteq> - 1"
  shows "lock_begin (Some (slot g)) self mem_ok (hp g) =
      Some (Done (Returns EDEADLK (Some (slot g),
        heap_set (hp g) a (r\<lparr>lock_idx := lock_idx r + 1\<rparr>)))) \<and>
    pthread_mutex_lock (Some (slot g)) self mem_ok (hp g) =
      Some (Returns EDEADLK (Some (slot g),
        heap_set (hp g) a (r\<lparr>lock_idx := lock_idx r + 1\<rparr>))) \<and>
    (sint (lock_idx r) \<noteq> 2147483647 \<longrightarrow> sint (lock_idx r + 1) = sint (lock_idx r) + 1)"
proof -
  have "rec_ok r"
    using reachable_heap_ok [OF assms(1)] assms(3) by (rule heap_okD)
  then have "try_lock r = 0"
    by (simp add: rec_ok_def)
  with assms(3,5,6) have "lock_iterate LOOP_ERRORCHECK self (Rec a) (hp g) =
     Some (Done (Returns EDEADLK (Some (Stored (Rec a)),
       heap_set (hp g) a (r\<lparr>lock_idx := lock_idx r + 1\<rparr>))))"
    by (rule lock_iterate_errorcheck_owner)
  with assms(2,3,4) show ?thesis
    by (simp add: pthread_mutex_lock_def lock_begin_Rec sint_lock_idx_inc)
qed

theorem errorcheck_relock_deadlock_witness:
  "lock_begin (Some (Stored (Rec 0))) 1 True
     [Some \<lparr>lock_idx = 0, try_lock = 0, owner = Some 1, waiters = 0, lastOwner = Some 1,
       lastWaiter = None, mtype = PTHREAD_MUTEX_ERRORCHECK, pshared = PTHREAD_PROCESS_PRIVATE\<rparr>] =
   Some (Done (Returns EDEADLK (Some (Stored (Rec 0)),
     [Some \<lparr>lock_idx = 1, try_lock = 0, owner = Some 1, waiters = 0, lastOwner = Some 1,
       lastWaiter = None, mtype = PTHREAD_MUTEX_ERRORCHECK, pshared = PTHREAD_PROCESS_PRIVATE\<rparr>]))) \<and>
   pthread_mutex_lock (Some (Stored (Rec 0))) 1 True
     [Some \<lparr>lock_idx = 0, try_lock = 0, owner = Some 1, waiters = 0, lastOwner = Some 1,
       lastWaiter = None, mtype = PTHREAD_MUTEX_ERRORCHECK, pshared = PTHREAD_PROCESS_PRIVATE\<rparr>] =
   Some (Returns EDEADLK (Some (Stored (Rec 0)),
     [Some \<lparr>lock_idx = 1, try_lock = 0, owner = Some 1, waiters = 0, lastOwner = Some 1,
       lastWaiter = None, mtype = PTHREAD_MUTEX_ERRORCHECK, pshared = PTHREAD_PROCESS_PRIVATE\<rparr>]))"
  using errorcheck_relock_deadlock [OF reachable_errorcheck_locked, where a = 0 and self = 1
      and mem_ok = True]
  by (simp add: heap_at_def heap_set_def)

subsection \<open>The invariant of the mutex record\<close>

text \<open>
  Claim C1. Every record the operations can reach should have a counter of at least -1 and
  an owner exactly when the counter is at least 0. It does not: thread 1 initialises an
  error-checking mutex, locks it, locks it again (\<^verbatim>\<open>EDEADLK\<close>, the counter goes from 0 to 1
  and stays there) and unlocks it. The unlock clears the owner and brings the counter to
  0, not to -1: the state reached has a record without an owner whose counter is 0. The
  waiting path of the same loop and \<^verbatim>\<open>pthread_mutex_trylock\<close> both undo the increment
  when they do not take the lock; the \<^verbatim>\<open>EDEADLK\<close> branch does not.
\<close>

theorem errorcheck_relock_then_unlock:
  "pthread_mutex_lock (Some (Stored (Rec 0))) 1 True
     [Some \<lparr>lock_idx = 0, try_lock = 0, owner = Some 1, waiters = 0, lastOwner = Some 1,
       lastWaiter = None, mtype = PTHREAD_MUTEX_ERRORCHECK, pshared = PTHREAD_PROCESS_PRIVATE\<rparr>] =
   Some (Returns EDEADLK (Some (Stored (Rec 0)),
     [Some \<lparr>lock_idx = 1, try_lock = 0, owner = Some 1, waiters = 0, lastOwner = Some 1,
       lastWaiter = None, mtype = PTHREAD_MUTEX_ERRORCHECK, pshared = PTHREAD_PROCESS_PRIVATE\<rparr>])) \<and>
   pthread_mutex_unlock (Some (Stored (Rec 0))) 1
     [Some \<lparr>lock_idx = 1, try_lock = 0, owner = Some 1, waiters = 0, lastOwner = Some 1,
       lastWaiter = None, mtype = PTHREAD_MUTEX_ERRORCHECK, pshared = PTHREAD_PROCESS_PRIVATE\<rparr>] =
   Some (Returns OK (Some (Stored (Rec 0)),
     [Some \<lparr>lock_idx = 0, try_lock = 0, owner = None, waiters = 0, lastOwner = Some 1,
       lastWaiter = None, mtype = PTHREAD_MUTEX_ERRORCHECK, pshared = PTHREAD_PROCESS_PRIVATE\<rparr>])) \<and>
   reachable \<lparr>slot = Stored (Rec 0),
     hp = [Some \<lparr>lock_idx = 0, try_lock = 0, owner = None, waiters = 0, lastOwner = Some 1,
       lastWaiter = None, mtype = PTHREAD_MUTEX_ERRORCHECK, pshared = PTHREAD_PROCESS_PRIVATE\<rparr>],
     threads = \<lambda>t. Idle\<rparr>"
proof -
  let ?r2 = "\<lparr>lock_idx = 0, try_lock = 0, owner = Some 1, waiters = 0, lastOwner = Some 1,
       lastWaiter = None, mtype = PTHREAD_MUTEX_ERRORCHECK, pshared = PTHREAD_PROCESS_PRIVATE\<rparr>"
  let ?r3 = "\<lparr>lock_idx = 1, try_lock = 0, owner = Some 1, waiters = 0, lastOwner = Some 1,
       lastWaiter = None, mtype = PTHREAD_MUTEX_ERRORCHECK, pshared = PTHREAD_PROCESS_PRIVATE\<rparr>"
  let ?r4 = "\<lparr>lock_idx = 0, try_lock = 0, owner = None, waiters = 0, lastOwner = Some 1,
       lastWaiter = None, mtype = PTHREAD_MUTEX_ERRORCHECK, pshared = PTHREAD_PROCESS_PRIVATE\<rparr>"
  let ?g2 = "\<lparr>slot = Stored (Rec 0), hp = [Some ?r2], threads = \<lambda>t. Idle\<rparr>"
  let ?g3 = "\<lparr>slot = Stored (Rec 0), hp = [Some ?r3], threads = \<lambda>t. Idle\<rparr>"
  have b: "lock_begin (Some (Stored (Rec 0))) 1 True [Some ?r2] =
      Some (Done (Returns EDEADLK (Some (Stored (Rec 0)), [Some ?r3])))"
    by (simp add: lock_begin_Rec [where r = ?r2] lock_iterate_errorcheck_owner [where r = ?r2]
        heap_at_def heap_set_def)
  then have l: "pthread_mutex_lock (Some (Stored (Rec 0))) 1 True [Some ?r2] =
      Some (Returns EDEADLK (Some (Stored (Rec 0)), [Some ?r3]))"
    by (simp add: pthread_mutex_lock_def)
  have u: "pthread_mutex_unlock (Some (Stored (Rec 0))) 1 [Some ?r3] =
      Some (Returns OK (Some (Stored (Rec 0)), [Some ?r4]))"
    by (simp add: pthread_mutex_unlock_def heap_at_def heap_set_def PTW32_OBJECT_SET_def)
  have "step ?g2 (?g2\<lparr>slot := Stored (Rec 0), hp := [Some ?r3]\<rparr>)"
    by (rule step_lock_return [where t = 1 and mem_ok = True and e = EDEADLK])
      (simp_all add: b [simplified])
  with reachable_errorcheck_locked have "reachable ?g3"
    by (auto dest: reachable_step)
  moreover have "step ?g3 (?g3\<lparr>slot := Stored (Rec 0), hp := [Some ?r4]\<rparr>)"
    by (rule step_unlock [where t = 1 and e = OK]) (simp_all add: u [simplified])
  ultimately have "reachable \<lparr>slot = Stored (Rec 0), hp = [Some ?r4], threads = \<lambda>t. Idle\<rparr>"
    by (auto dest: reachable_step)
  with l u show ?thesis by simp
qed


subsection \<open>Automatic initialisation\<close>

text \<open>
  Claim C9. On a handle that holds the reserved value of a statically declared mutex,
  \<^verbatim>\<open>pthread_mutex_lock\<close> and \<^verbatim>\<open>pthread_mutex_trylock\<close> first initialise the mutex as
  \<^verbatim>\<open>pthread_mutex_init\<close> does without attributes, which is the same as with private, default
  attributes: when the allocation succeeds they behave as the same call on the handle and
  heap that this initialisation leaves, and they return 0 with the caller as owner of the
  new record; \<^verbatim>\<open>pthread_mutex_lock\<close> does so in its first segment, under the slot
  acquisition that saw the reserved value. When the allocation fails both return
  \<^verbatim>\<open>ENOMEM\<close>.
\<close>

theorem auto_init_on_first_use:
  "pthread_mutex_init (Some (Stored PTW32_OBJECT_AUTO_INIT)) None mem_ok h =
     pthread_mutex_init (Some (Stored PTW32_OBJECT_AUTO_INIT))
       (Some (Some \<lparr>attr_pshared = PTHREAD_PROCESS_PRIVATE, attr_type = PTHREAD_MUTEX_DEFAULT\<rparr>))
       mem_ok h \<and>
   pthread_mutex_init (Some (Stored PTW32_OBJECT_AUTO_INIT)) None True h =
     Some (Returns OK (Some (Stored (Rec (length h))),
       h @ [Some \<lparr>lock_idx = - 1, try_lock = 0, owner = None, waiters = 0, lastOwner = None,
              lastWaiter = None, mtype = PTHREAD_MUTEX_RECURSIVE,
              pshared = PTHREAD_PROCESS_PRIVATE\<rparr>])) \<and>
   pthread_mutex_lock (Some (Stored PTW32_OBJECT_AUTO_INIT)) self True h =
     pthread_mutex_lock (Some (Stored (Rec (length h)))) self True
       (h @ [Some \<lparr>lock_idx = - 1, try_lock = 0, owner = None, waiters = 0, lastOwner = None,
              lastWaiter = None, mtype = PTHREAD_MUTEX_RECURSIVE,
              pshared = PTHREAD_PROCESS_PRIVATE\<rparr>]) \<and>
   pthread_mutex_trylock (Some (Stored PTW32_OBJECT_AUTO_INIT)) self True h =
     pthread_mutex_trylock (Some (Stored (Rec (length h)))) self True
       (h @ [Some \<lparr>lock_idx = - 1, try_lock = 0, owner = None, waiters = 0, lastOwner = None,
              lastWaiter = None, mtype = PTHREAD_MUTEX_RECURSIVE,
              pshared = PTHREAD_PROCESS_PRIVATE\<rparr>]) \<and>
   lock_begin (Some (Stored PTW32_OBJECT_AUTO_INIT)) self True h =
     Some (Done (Returns OK (Some (Stored (Rec (length h))),
       h @ [Some \<lparr>lock_idx = 0, try_lock = 0, owner = Some self, waiters = 0,
              lastOwner = Some self, lastWaiter = None, mtype = PTHREAD_MUTEX_RECURSIVE,
              pshared = PTHREAD_PROCESS_PRIVATE\<rparr>]))) \<and>
   pthread_mutex_lock (Some (Stored PTW32_OBJECT_AUTO_INIT)) self True h =
     Some (Returns OK (Some (Stored (Rec (length h))),
       h @ [Some \<lparr>lock_idx = 0, try_lock = 0, owner = Some self, waiters = 0,
              lastOwner = Some self, lastWaiter = None, mtype = PTHREAD_MUTEX_RECURSIVE,
              pshared = PTHREAD_PROCESS_PRIVATE\<rparr>])) \<and>
   pthread_mutex_trylock (Some (Stored PTW32_OBJECT_AUTO_INIT)) self True h =
     Some (Returns OK (Some (Stored (Rec (length h))),
       h @ [Some \<lparr>lock_idx = 0, try_lock = 0, owner = Some self, waiters = 0,
              lastOwner = Some self, lastWaiter = None, mtype = PTHREAD_MUTEX_RECURSIVE,
              pshared = PTHREAD_PROCESS_PRIVATE\<rparr>])) \<and>
   pthread_mutex_lock (Some (Stored PTW32_OBJECT_AUTO_INIT)) self False h =
     Some (Returns ENOMEM (Some (Stored NULL), h)) \<and>
   pthread_mutex_trylock (Some (Stored PTW32_OBJECT_AUTO_INIT)) self False h =
     Some (Returns ENOMEM (Some (Stored NULL), h))"
proof -
  let ?fresh = "\<lparr>lock_idx = - 1, try_lock = 0, owner = None, waiters = 0, lastOwner = None,
              lastWaiter = None, mtype = PTHREAD_MUTEX_RECURSIVE,
              pshared = PTHREAD_PROCESS_PRIVATE\<rparr>"
  let ?held = "\<lparr>lock_idx = 0, try_lock = 0, owner = Some self, waiters = 0,
              lastOwner = Some self, lastWaiter = None, mtype = PTHREAD_MUTEX_RECURSIVE,
              pshared = PTHREAD_PROCESS_PRIVATE\<rparr>"
  let ?a = "length h"
  let ?h1 = "h @ [Some ?fresh]"
  have at: "heap_at ?h1 ?a = Some ?fresh"
    by (simp add: heap_at_def)
  have set: "heap_set ?h1 ?a ?held = h @ [Some ?held]"
    by (simp add: heap_set_def)
  have i: "pthread_mutex_init (Some (Stored PTW32_OBJECT_AUTO_INIT)) None True h =
      Some (Returns OK (Some (Stored (Rec ?a)), ?h1))"
    by (simp add: init_default heap_new_def ptw32_mutex_mapped_default_def)
  have d: "pthread_mutex_init (Some (Stored PTW32_OBJECT_AUTO_INIT)) None mem_ok h =
     pthread_mutex_init (Some (Stored PTW32_OBJECT_AUTO_INIT))
       (Some (Some \<lparr>attr_pshared = PTHREAD_PROCESS_PRIVATE, attr_type = PTHREAD_MUTEX_DEFAULT\<rparr>))
       mem_ok h"
    by (simp add: pthread_mutex_init_def Let_def split: option.splits)
  have b: "lock_begin (Some (Stored PTW32_OBJECT_AUTO_INIT)) self True h =
      lock_begin (Some (Stored (Rec ?a))) self True ?h1"
    by (simp add: lock_begin_AUTO_INIT i)
  have b1: "lock_begin (Some (Stored (Rec ?a))) self True ?h1 =
      Some (Done (Returns OK (Some (Stored (Rec ?a)), h @ [Some ?held])))"
    using lock_iterate_free [OF at, of LOOP_RECURSIVE self]
    by (simp add: lock_begin_Rec [OF at] set)
  have l: "pthread_mutex_lock (Some (Stored PTW32_OBJECT_AUTO_INIT)) self True h =
      pthread_mutex_lock (Some (Stored (Rec ?a))) self True ?h1"
    by (simp add: pthread_mutex_lock_def b)
  have l1: "pthread_mutex_lock (Some (Stored PTW32_OBJECT_AUTO_INIT)) self True h =
      Some (Returns OK (Some (Stored (Rec ?a)), h @ [Some ?held]))"
    by (simp add: pthread_mutex_lock_def b b1)
  have t1: "pthread_mutex_trylock (Some (Stored (Rec ?a))) self True ?h1 =
      Some (Returns OK (Some (Stored (Rec ?a)), h @ [Some ?held]))"
    by (simp add: pthread_mutex_trylock_def PTW32_OBJECT_TRYGET_def PTW32_OBJECT_SET_def
        deref_def at Let_def heap_set_def)
  have t: "pthread_mutex_trylock (Some (Stored PTW32_OBJECT_AUTO_INIT)) self True h =
      Some (Returns OK (Some (Stored (Rec ?a)), h @ [Some ?held]))"
    by (simp add: pthread_mutex_trylock_def PTW32_OBJECT_TRYGET_def PTW32_OBJECT_SET_def
        i deref_def at Let_def heap_set_def)
  have lf: "pthread_mutex_lock (Some (Stored PTW32_OBJECT_AUTO_INIT)) self False h =
      Some (Returns ENOMEM (Some (Stored NULL), h))"
    by (simp add: pthread_mutex_lock_def lock_begin_AUTO_INIT init_default)
  have tf: "pthread_mutex_trylock (Some (Stored PTW32_OBJECT_AUTO_INIT)) self False h =
      Some (Returns ENOMEM (Some (Stored NULL), h))"
    by (simp add: pthread_mutex_trylock_def PTW32_OBJECT_TRYGET_def PTW32_OBJECT_SET_def
        init_default)
  from d i l t t1 b b1 l1 lf tf show ?thesis by simp
qed


end
